theory Spec2Isabelle
  imports Complex_Main
begin

section \<open>Drop point assignment: data model\<close>

text \<open>
  A shallow embedding of the drop point repository (data access layer) and of the drop
  point assignment service built on it.

  Conventions of the embedding.
  \<^item> A JavaScript \<open>number\<close> that carries a quantity (kilograms, kilometres, degrees) is an
    exact real number; identifiers and counts are integers.
  \<^item> A \<open>Date\<close> is the number of milliseconds since the epoch read on the local wall clock
    of a zone with a fixed offset; \<open>setHours\<close>, \<open>getHours\<close>, \<open>getDay\<close> work on that reading.
  \<^item> The database behind the Prisma client is a record of three tables (lists of rows in
    table order) and the two autoincrement sequences; an awaited repository call takes the
    store and returns the new store with its result.
  \<^item> An exception is a value of type \<open>error\<close>; an operation that can throw returns
    \<open>error + 'a\<close> together with the store as it is at that moment.
\<close>

type_synonym date = int

record geoLocation =
  latitude :: real
  longitude :: real

record hours =
  hours_open :: string
  hours_close :: string

text \<open>
  A drop point row. The two JSON columns are a table keyed by the weekday name and a
  table keyed by the crop type; \<open>None\<close> is a column that holds \<open>null\<close>.
\<close>

record dropPoint =
  dp_id :: string
  dp_name :: string
  dp_address :: string
  dp_district :: string
  dp_latitude :: real
  dp_longitude :: real
  isActive :: bool
  operatingHours :: "(string \<rightharpoonup> hours) option"
  crateInventory :: "(string \<rightharpoonup> int) option"

text \<open>\<open>DropPointWithDistance\<close>: the row spread into an object with one more field.\<close>

record dropPointWithDistance =
  point :: dropPoint
  wd_distanceKm :: real

record timeSlotCapacity =
  slot_id :: int
  slot_dropPointId :: string
  slotDate :: date
  slotStartHour :: int
  slotEndHour :: int
  maxCapacityKg :: real
  usedCapacityKg :: real

datatype assignmentStatus = ASSIGNED | REASSIGNED

record dropPointAssignment =
  assignment_id :: int
  listingId :: int
  dropPointId :: string
  farmerId :: int
  farmerLatitude :: real
  farmerLongitude :: real
  distanceKm :: real
  pickupWindowStart :: date
  pickupWindowEnd :: date
  cratesNeeded :: int
  status :: assignmentStatus
  changeReason :: "string option"
  previousDropPointId :: "string option"

record db =
  dropPoints :: "dropPoint list"
  timeSlots :: "timeSlotCapacity list"
  assignments :: "dropPointAssignment list"
  slotSeq :: int
  assignmentSeq :: int

text \<open>
  The exceptions: the service's own \<open>DropPointAssignmentError\<close> (message and code), the
  Prisma client's known request errors by code (\<open>P2002\<close> unique constraint,
  \<open>P2025\<close> record not found), and the \<open>RangeError\<close> of the internationalisation API
  for an option value outside its list.
\<close>

datatype error =
  DropPointAssignmentError string string
  | PrismaClientKnownRequestError string
  | RangeError

subsection \<open>Service types and constants\<close>

record assignDropPointInput =
  in_listingId :: int
  in_farmerId :: int
  in_farmerLocation :: geoLocation
  in_cropType :: string
  in_quantityKg :: real
  in_preferredDate :: "date option"

record dropPointInfo =
  info_id :: string
  info_name :: string
  info_address :: string
  info_location :: geoLocation
  info_distanceKm :: real

record pickupWindow =
  window_start :: date
  window_end :: date

record dropPointAssignmentResult =
  res_assignment :: dropPointAssignment
  res_dropPoint :: dropPointInfo
  res_pickupWindow :: pickupWindow
  res_cratesNeeded :: int

record nearbyDropPointInfo =
  near_id :: string
  near_name :: string
  near_address :: string
  near_location :: geoLocation
  near_distanceKm :: real
  isOpen :: bool

definition DEFAULT_SEARCH_RADIUS_KM :: real where
  "DEFAULT_SEARCH_RADIUS_KM = 20"

definition CRATES_PER_50KG :: int where
  "CRATES_PER_50KG = 1"

definition DEFAULT_TIME_SLOT_START_HOUR :: int where
  "DEFAULT_TIME_SLOT_START_HOUR = 7"

definition DEFAULT_TIME_SLOT_DURATION_HOURS :: int where
  "DEFAULT_TIME_SLOT_DURATION_HOURS = 2"

section \<open>Library functions of the platform\<close>

text \<open>\<open>Math.round\<close>: the nearest integer, a half rounded towards plus infinity.\<close>

definition Math_round :: "real \<Rightarrow> real" where
  "Math_round x = of_int \<lfloor>x + 1 / 2\<rfloor>"

text \<open>\<open>String.prototype.toLowerCase\<close> on the ASCII letters.\<close>

definition toLowerCase :: "string \<Rightarrow> string" where
  "toLowerCase cs =
     map (\<lambda>c. case map_of (zip ''ABCDEFGHIJKLMNOPQRSTUVWXYZ'' ''abcdefghijklmnopqrstuvwxyz'') c of
                 None \<Rightarrow> c
               | Some l \<Rightarrow> l) cs"

subsection \<open>Dates\<close>

definition msPerDay :: int where
  "msPerDay = 86400000"

definition makeTime :: "int \<Rightarrow> int \<Rightarrow> int \<Rightarrow> int \<Rightarrow> int" where
  "makeTime h m s ms = ((h * 60 + m) * 60 + s) * 1000 + ms"

text \<open>\<open>Date.prototype.setHours(h, m, s, ms)\<close>: the same local day, the time replaced.\<close>

definition setHours :: "date \<Rightarrow> int \<Rightarrow> int \<Rightarrow> int \<Rightarrow> int \<Rightarrow> date" where
  "setHours t h m s ms = (t div msPerDay) * msPerDay + makeTime h m s ms"

definition getHours :: "date \<Rightarrow> int" where
  "getHours t = (t mod msPerDay) div 3600000"

definition getMinutes :: "date \<Rightarrow> int" where
  "getMinutes t = (t mod 3600000) div 60000"

definition getSeconds :: "date \<Rightarrow> int" where
  "getSeconds t = (t mod 60000) div 1000"

definition getMilliseconds :: "date \<Rightarrow> int" where
  "getMilliseconds t = t mod 1000"

text \<open>\<open>getDay\<close>: 0 is Sunday; day 0 of the epoch was a Thursday.\<close>

definition getDay :: "date \<Rightarrow> int" where
  "getDay t = (t div msPerDay + 4) mod 7"

text \<open>\<open>d.setDate(d.getDate() + 1)\<close>: the same time on the next calendar day.\<close>

definition addOneDay :: "date \<Rightarrow> date" where
  "addOneDay t = t + msPerDay"

section \<open>The repository\<close>

definition findById :: "db \<Rightarrow> string \<Rightarrow> dropPoint option" where
  "findById s i = find (\<lambda>dp. dp_id dp = i) (dropPoints s)"

record nearbyDropPointsFilter =
  flt_location :: geoLocation
  flt_radiusKm :: real
  flt_limit :: "nat option"
  flt_includeInactive :: "bool option"

text \<open>
  \<open>findNearby\<close>. The great-circle distance \<open>calculateHaversineDistance\<close> is floating-point
  trigonometry; the embedding takes it as the parameter \<open>hav\<close>. \<open>Array.prototype.sort\<close>
  is stable, as \<open>sort_key\<close> is.
\<close>

definition findNearby ::
  "(geoLocation \<Rightarrow> geoLocation \<Rightarrow> real) \<Rightarrow> nearbyDropPointsFilter \<Rightarrow> db \<Rightarrow> dropPointWithDistance list"
where
  "findNearby hav f s =
     (let lim = (case flt_limit f of None \<Rightarrow> 10 | Some n \<Rightarrow> n);
          includeInactive = (case flt_includeInactive f of None \<Rightarrow> False | Some b \<Rightarrow> b);
          allDropPoints = filter (\<lambda>dp. includeInactive \<or> isActive dp) (dropPoints s);
          dropPointsWithDistance =
            take lim
              (sort_key wd_distanceKm
                (filter (\<lambda>c. wd_distanceKm c \<le> flt_radiusKm f)
                  (map (\<lambda>dp. \<lparr>point = dp,
                                wd_distanceKm = hav (flt_location f)
                                  \<lparr>latitude = dp_latitude dp, longitude = dp_longitude dp\<rparr>\<rparr>)
                       allDropPoints)))
      in map (\<lambda>c. c\<lparr>wd_distanceKm := Math_round (wd_distanceKm c * 100) / 100\<rparr>)
             dropPointsWithDistance)"

subsection \<open>Time slots\<close>

record capacityCheck =
  hasCapacity :: bool
  availableKg :: real
  slot :: "timeSlotCapacity option"

definition findFirstSlot :: "db \<Rightarrow> string \<Rightarrow> date \<Rightarrow> int \<Rightarrow> timeSlotCapacity option" where
  "findFirstSlot s dropPointId' d startHour =
     find (\<lambda>sl. slot_dropPointId sl = dropPointId' \<and> slotDate sl = d \<and> slotStartHour sl = startHour)
          (timeSlots s)"

text \<open>
  \<open>checkSlotCapacity\<close>. A missing slot is inserted with the default capacity; its \<open>id\<close> is
  the next value of the table's autoincrement sequence.
\<close>

definition checkSlotCapacity ::
  "string \<Rightarrow> date \<Rightarrow> int \<Rightarrow> real \<Rightarrow> db \<Rightarrow> capacityCheck \<times> db"
where
  "checkSlotCapacity dropPointId' d startHour requiredKg s =
     (let (sl, s') =
            (case findFirstSlot s dropPointId' d startHour of
               Some found \<Rightarrow> (found, s)
             | None \<Rightarrow>
                 (let created = \<lparr>slot_id = slotSeq s + 1, slot_dropPointId = dropPointId',
                                  slotDate = d, slotStartHour = startHour,
                                  slotEndHour = startHour + 2,
                                  maxCapacityKg = 1000, usedCapacityKg = 0\<rparr>
                  in (created, s\<lparr>timeSlots := timeSlots s @ [created],
                                 slotSeq := slotSeq s + 1\<rparr>)));
          available = maxCapacityKg sl - usedCapacityKg sl
      in (\<lparr>hasCapacity = (available \<ge> requiredKg), availableKg = available, slot = Some sl\<rparr>, s'))"

text \<open>\<open>reserveCapacity\<close>: \<open>update\<close> by primary key; it throws when no row has the key.\<close>

definition reserveCapacity :: "int \<Rightarrow> real \<Rightarrow> db \<Rightarrow> error + (timeSlotCapacity \<times> db)" where
  "reserveCapacity slotId reserveKg s =
     (case find (\<lambda>sl. slot_id sl = slotId) (timeSlots s) of
        None \<Rightarrow> Inl (PrismaClientKnownRequestError ''P2025'')
      | Some sl \<Rightarrow>
          Inr (sl\<lparr>usedCapacityKg := usedCapacityKg sl + reserveKg\<rparr>,
               s\<lparr>timeSlots :=
                    map (\<lambda>x. if slot_id x = slotId
                              then x\<lparr>usedCapacityKg := usedCapacityKg x + reserveKg\<rparr> else x)
                        (timeSlots s)\<rparr>))"

subsection \<open>Crates\<close>

record crateCheck =
  hasAvailability :: bool
  availableCrates :: int

definition checkCrateAvailability :: "db \<Rightarrow> string \<Rightarrow> string \<Rightarrow> int \<Rightarrow> crateCheck" where
  "checkCrateAvailability s dropPointId' cropType requiredCrates =
     (case findById s dropPointId' of
        None \<Rightarrow> \<lparr>hasAvailability = False, availableCrates = 0\<rparr>
      | Some dp \<Rightarrow>
          (case crateInventory dp of
             None \<Rightarrow> \<lparr>hasAvailability = False, availableCrates = 0\<rparr>
           | Some inventory \<Rightarrow>
               (let normalizedCrop = toLowerCase cropType;
                    available = (case inventory normalizedCrop of None \<Rightarrow> 0 | Some n \<Rightarrow> n)
                in \<lparr>hasAvailability = (available \<ge> requiredCrates),
                    availableCrates = available\<rparr>)))"

subsection \<open>Assignments\<close>

record createAssignmentInput =
  ca_listingId :: int
  ca_dropPointId :: string
  ca_farmerId :: int
  ca_farmerLocation :: geoLocation
  ca_distanceKm :: real
  ca_pickupWindowStart :: date
  ca_pickupWindowEnd :: date
  ca_cratesNeeded :: int

definition getAssignmentByListingId :: "db \<Rightarrow> int \<Rightarrow> dropPointAssignment option" where
  "getAssignmentByListingId s l = find (\<lambda>a. listingId a = l) (assignments s)"

text \<open>
  \<open>createAssignment\<close>. The Prisma schema is not among the sources; \<open>listingId\<close> is a
  unique key of the table (it is the key of the \<open>findUnique\<close> and \<open>update\<close> calls, and
  a listing has at most one assignment), so \<open>create\<close> throws on a listing that is
  assigned. The new row takes the next value of the autoincrement sequence as its id and
  has no change reason and no previous drop point.
\<close>

definition createAssignment ::
  "createAssignmentInput \<Rightarrow> db \<Rightarrow> error + (dropPointAssignment \<times> db)"
where
  "createAssignment inp s =
     (case getAssignmentByListingId s (ca_listingId inp) of
        Some _ \<Rightarrow> Inl (PrismaClientKnownRequestError ''P2002'')
      | None \<Rightarrow>
          (let a = \<lparr>assignment_id = assignmentSeq s + 1,
                    listingId = ca_listingId inp,
                    dropPointId = ca_dropPointId inp,
                    farmerId = ca_farmerId inp,
                    farmerLatitude = latitude (ca_farmerLocation inp),
                    farmerLongitude = longitude (ca_farmerLocation inp),
                    distanceKm = ca_distanceKm inp,
                    pickupWindowStart = ca_pickupWindowStart inp,
                    pickupWindowEnd = ca_pickupWindowEnd inp,
                    cratesNeeded = ca_cratesNeeded inp,
                    status = ASSIGNED,
                    changeReason = None,
                    previousDropPointId = None\<rparr>
           in Inr (a, s\<lparr>assignments := assignments s @ [a],
                        assignmentSeq := assignmentSeq s + 1\<rparr>)))"

text \<open>
  \<open>getAssignmentWithDropPoint\<close>: the row with its related drop point. The relation is a
  foreign key; on a store that keeps it (\<open>wf_db\<close> below) the inner lookup never fails.
\<close>

definition getAssignmentWithDropPoint ::
  "db \<Rightarrow> int \<Rightarrow> (dropPointAssignment \<times> dropPoint) option"
where
  "getAssignmentWithDropPoint s l =
     (case getAssignmentByListingId s l of
        None \<Rightarrow> None
      | Some a \<Rightarrow> (case findById s (dropPointId a) of
                    None \<Rightarrow> None
                  | Some dp \<Rightarrow> Some (a, dp)))"

text \<open>The \<open>Partial\<close> update data: an absent field leaves the column as it is.\<close>

record assignmentUpdate =
  upd_dropPointId :: "string option"
  upd_pickupWindowStart :: "date option"
  upd_pickupWindowEnd :: "date option"
  upd_status :: "assignmentStatus option"
  upd_changeReason :: "string option"
  upd_previousDropPointId :: "string option"

definition applyUpdate :: "assignmentUpdate \<Rightarrow> dropPointAssignment \<Rightarrow> dropPointAssignment" where
  "applyUpdate u a =
     a\<lparr>dropPointId := (case upd_dropPointId u of None \<Rightarrow> dropPointId a | Some v \<Rightarrow> v),
       pickupWindowStart :=
         (case upd_pickupWindowStart u of None \<Rightarrow> pickupWindowStart a | Some v \<Rightarrow> v),
       pickupWindowEnd :=
         (case upd_pickupWindowEnd u of None \<Rightarrow> pickupWindowEnd a | Some v \<Rightarrow> v),
       status := (case upd_status u of None \<Rightarrow> status a | Some v \<Rightarrow> v),
       changeReason :=
         (case upd_changeReason u of None \<Rightarrow> changeReason a | Some v \<Rightarrow> Some v),
       previousDropPointId :=
         (case upd_previousDropPointId u of None \<Rightarrow> previousDropPointId a | Some v \<Rightarrow> Some v)\<rparr>"

definition updateAssignment ::
  "int \<Rightarrow> assignmentUpdate \<Rightarrow> db \<Rightarrow> error + (dropPointAssignment \<times> db)"
where
  "updateAssignment l u s =
     (case getAssignmentByListingId s l of
        None \<Rightarrow> Inl (PrismaClientKnownRequestError ''P2025'')
      | Some a \<Rightarrow>
          Inr (applyUpdate u a,
               s\<lparr>assignments :=
                    map (\<lambda>x. if listingId x = l then applyUpdate u x else x) (assignments s)\<rparr>))"

section \<open>The assignment service\<close>

definition getNextBusinessDay :: "date \<Rightarrow> date" where
  "getNextBusinessDay now =
     (let tomorrow = setHours (addOneDay now) 0 0 0 0
      in if getDay tomorrow = 0 then addOneDay tomorrow else tomorrow)"

text \<open>
  The candidate loop of \<open>assignDropPoint\<close> (step 3): the first candidate that passes the
  capacity check and then the crate check, with the id of its slot, or nothing when the
  list is exhausted. The store is threaded through, since \<open>checkSlotCapacity\<close> writes.
\<close>

fun scanCandidates ::
  "date \<Rightarrow> real \<Rightarrow> string \<Rightarrow> int \<Rightarrow> dropPointWithDistance list \<Rightarrow> db
     \<Rightarrow> (dropPointWithDistance \<times> int option) option \<times> db"
where
  "scanCandidates preferredDate quantityKg cropType needed [] s = (None, s)"
| "scanCandidates preferredDate quantityKg cropType needed (c # cs) s =
     (let (capacity, s1) =
            checkSlotCapacity (dp_id (point c)) preferredDate DEFAULT_TIME_SLOT_START_HOUR
              quantityKg s
      in if \<not> hasCapacity capacity
         then scanCandidates preferredDate quantityKg cropType needed cs s1
         else if \<not> hasAvailability
                     (checkCrateAvailability s1 (dp_id (point c)) cropType needed)
         then scanCandidates preferredDate quantityKg cropType needed cs s1
         else (Some (c, map_option slot_id (slot capacity)), s1))"

text \<open>Step 5: \<open>if (slotId)\<close> holds for a number that is neither \<open>null\<close> nor zero.\<close>

definition reserveIfSlot :: "int option \<Rightarrow> real \<Rightarrow> db \<Rightarrow> error + db" where
  "reserveIfSlot slotId quantityKg s =
     (case slotId of
        None \<Rightarrow> Inr s
      | Some i \<Rightarrow>
          if i \<noteq> 0
          then (case reserveCapacity i quantityKg s of
                  Inl e \<Rightarrow> Inl e
                | Inr (_, s') \<Rightarrow> Inr s')
          else Inr s)"

text \<open>
  \<open>assignDropPoint\<close>. The clock enters only through the default of \<open>preferredDate\<close>,
  so the current time \<open>now\<close> is a parameter.
\<close>

definition assignDropPoint ::
  "(geoLocation \<Rightarrow> geoLocation \<Rightarrow> real) \<Rightarrow> date \<Rightarrow> assignDropPointInput \<Rightarrow> db
     \<Rightarrow> (error + dropPointAssignmentResult) \<times> db"
where
  "assignDropPoint hav now inp s =
     (let preferredDate =
            (case in_preferredDate inp of None \<Rightarrow> getNextBusinessDay now | Some d \<Rightarrow> d);
          quantityKg = in_quantityKg inp;
          needed = \<lceil>quantityKg / 50\<rceil> * CRATES_PER_50KG;
          nearbyDropPoints =
            findNearby hav
              \<lparr>flt_location = in_farmerLocation inp, flt_radiusKm = DEFAULT_SEARCH_RADIUS_KM,
               flt_limit = Some 20, flt_includeInactive = None\<rparr> s
      in if length nearbyDropPoints = 0
         then (Inl (DropPointAssignmentError ''No drop points found within search radius''
                      ''NO_DROP_POINTS''), s)
         else
           (let (found, s1) =
                  scanCandidates preferredDate quantityKg (in_cropType inp) needed
                    nearbyDropPoints s;
                (assignedDropPoint, slotId, s2) =
                  (case found of
                     Some (c, i) \<Rightarrow> (c, i, s1)
                   | None \<Rightarrow>
                       (let c = nearbyDropPoints ! 0;
                            (capacity, s2) =
                              checkSlotCapacity (dp_id (point c)) preferredDate
                                DEFAULT_TIME_SLOT_START_HOUR quantityKg s1
                        in (c, map_option slot_id (slot capacity), s2)))
            in case reserveIfSlot slotId quantityKg s2 of
                 Inl e \<Rightarrow> (Inl e, s2)
               | Inr s3 \<Rightarrow>
                   (let pickupStart =
                          setHours preferredDate DEFAULT_TIME_SLOT_START_HOUR 0 0 0;
                        pickupEnd =
                          setHours preferredDate
                            (DEFAULT_TIME_SLOT_START_HOUR + DEFAULT_TIME_SLOT_DURATION_HOURS)
                            0 0 0
                    in case createAssignment
                              \<lparr>ca_listingId = in_listingId inp,
                               ca_dropPointId = dp_id (point assignedDropPoint),
                               ca_farmerId = in_farmerId inp,
                               ca_farmerLocation = in_farmerLocation inp,
                               ca_distanceKm = wd_distanceKm assignedDropPoint,
                               ca_pickupWindowStart = pickupStart,
                               ca_pickupWindowEnd = pickupEnd,
                               ca_cratesNeeded = needed\<rparr> s3 of
                         Inl e \<Rightarrow> (Inl e, s3)
                       | Inr (a, s4) \<Rightarrow>
                           (Inr \<lparr>res_assignment = a,
                                 res_dropPoint =
                                   \<lparr>info_id = dp_id (point assignedDropPoint),
                                    info_name = dp_name (point assignedDropPoint),
                                    info_address = dp_address (point assignedDropPoint),
                                    info_location =
                                      \<lparr>latitude = dp_latitude (point assignedDropPoint),
                                       longitude = dp_longitude (point assignedDropPoint)\<rparr>,
                                    info_distanceKm = wd_distanceKm assignedDropPoint\<rparr>,
                                 res_pickupWindow =
                                   \<lparr>window_start = pickupStart, window_end = pickupEnd\<rparr>,
                                 res_cratesNeeded = needed\<rparr>, s4))))"

definition getAssignment :: "db \<Rightarrow> int \<Rightarrow> dropPointAssignmentResult option" where
  "getAssignment s l =
     (case getAssignmentWithDropPoint s l of
        None \<Rightarrow> None
      | Some (a, dp) \<Rightarrow>
          Some \<lparr>res_assignment = a,
                res_dropPoint =
                  \<lparr>info_id = dp_id dp, info_name = dp_name dp, info_address = dp_address dp,
                   info_location = \<lparr>latitude = dp_latitude dp, longitude = dp_longitude dp\<rparr>,
                   info_distanceKm = distanceKm a\<rparr>,
                res_pickupWindow =
                  \<lparr>window_start = pickupWindowStart a, window_end = pickupWindowEnd a\<rparr>,
                res_cratesNeeded = cratesNeeded a\<rparr>)"

subsection \<open>Reassignment\<close>

text \<open>The tail of \<open>reassignDropPoint\<close>: the awaited re-read and its check.\<close>

definition rereadAssignment :: "int \<Rightarrow> db \<Rightarrow> error + dropPointAssignmentResult" where
  "rereadAssignment l s =
     (case getAssignment s l of
        None \<Rightarrow> Inl (DropPointAssignmentError ''Failed to update assignment'' ''UPDATE_FAILED'')
      | Some updated \<Rightarrow> Inr updated)"

definition reassignDropPoint ::
  "int \<Rightarrow> string \<Rightarrow> string \<Rightarrow> db \<Rightarrow> (error + dropPointAssignmentResult) \<times> db"
where
  "reassignDropPoint l newDropPointId reason s =
     (case getAssignmentWithDropPoint s l of
        None \<Rightarrow> (Inl (DropPointAssignmentError ''No existing assignment found'' ''NOT_FOUND''), s)
      | Some (existing, _) \<Rightarrow>
          (case findById s newDropPointId of
             None \<Rightarrow>
               (Inl (DropPointAssignmentError ''New drop point not found''
                       ''DROP_POINT_NOT_FOUND''), s)
           | Some newDropPoint \<Rightarrow>
               (case updateAssignment l
                       \<lparr>upd_dropPointId = Some newDropPointId,
                        upd_pickupWindowStart = None,
                        upd_pickupWindowEnd = None,
                        upd_status = Some REASSIGNED,
                        upd_changeReason = Some reason,
                        upd_previousDropPointId = Some (dropPointId existing)\<rparr> s of
                  Inl e \<Rightarrow> (Inl e, s)
                | Inr (_, s') \<Rightarrow> (rereadAssignment l s', s'))))"

subsection \<open>Nearby drop points and opening hours\<close>

text \<open>\<open>String.prototype.split\<close> on a one-character separator.\<close>

fun splitOn :: "char \<Rightarrow> string \<Rightarrow> string list" where
  "splitOn sep [] = [] # []"
| "splitOn sep (x # xs) =
     (if x = sep then [] # splitOn sep xs
      else (case splitOn sep xs of
              [] \<Rightarrow> [x] # []
            | y # ys \<Rightarrow> (x # y) # ys))"

text \<open>
  \<open>Number\<close> applied to a string of decimal digits (the empty string is 0). Every other
  string is \<open>NaN\<close> here, written \<open>None\<close>: the grammar of signs, white space, fractions,
  exponents and radix prefixes is not part of the embedding.
\<close>

definition isDigit :: "char \<Rightarrow> bool" where
  "isDigit c = (48 \<le> (of_char c :: nat) \<and> (of_char c :: nat) \<le> 57)"

definition Number_of :: "string \<Rightarrow> int option" where
  "Number_of cs =
     (if list_all isDigit cs
      then Some (foldl (\<lambda>acc c. acc * 10 + (int (of_char c) - 48)) 0 cs)
      else None)"

text \<open>
  \<open>[h, m] = str.split(':').map(Number)\<close> followed by \<open>h * 60 + m\<close>; a missing or
  non-numeric component makes the sum \<open>NaN\<close>.
\<close>

definition minuteOfDay :: "string \<Rightarrow> int option" where
  "minuteOfDay str =
     (case map Number_of (splitOn CHR '':'' str) of
        Some h # Some m # _ \<Rightarrow> Some (h * 60 + m)
      | _ \<Rightarrow> None)"

definition isDropPointOpen :: "(string \<rightharpoonup> hours) option \<Rightarrow> string \<Rightarrow> date \<Rightarrow> bool" where
  "isDropPointOpen hoursTable dayOfWeek now =
     (case hoursTable of
        None \<Rightarrow> False
      | Some table \<Rightarrow>
          (case table dayOfWeek of
             None \<Rightarrow> False
           | Some todayHours \<Rightarrow>
               if hours_open todayHours = ''00:00'' \<and> hours_close todayHours = ''00:00''
               then False
               else
                 (let currentTime = getHours now * 60 + getMinutes now
                  in case (minuteOfDay (hours_open todayHours),
                           minuteOfDay (hours_close todayHours)) of
                       (Some openTime, Some closeTime) \<Rightarrow>
                         currentTime \<ge> openTime \<and> currentTime < closeTime
                     | _ \<Rightarrow> False)))"

text \<open>
  \<open>toLocaleDateString('en-US', { weekday: style })\<close>. The option \<open>weekday\<close> accepts
  \<open>narrow\<close>, \<open>short\<close> and \<open>long\<close>; any other value is a \<open>RangeError\<close>.
\<close>

definition weekdayName :: "string \<Rightarrow> int \<Rightarrow> string" where
  "weekdayName style d =
     (let long = [''Sunday'', ''Monday'', ''Tuesday'', ''Wednesday'', ''Thursday'', ''Friday'',
                  ''Saturday''] ! nat d
      in if style = ''long'' then long
         else if style = ''short'' then take 3 long
         else take 1 long)"

definition toLocaleDateString_weekday :: "date \<Rightarrow> string \<Rightarrow> error + string" where
  "toLocaleDateString_weekday d style =
     (if style = ''narrow'' \<or> style = ''short'' \<or> style = ''long''
      then Inr (weekdayName style (getDay d))
      else Inl RangeError)"

definition getNearbyDropPoints ::
  "(geoLocation \<Rightarrow> geoLocation \<Rightarrow> real) \<Rightarrow> date \<Rightarrow> geoLocation \<Rightarrow> real option \<Rightarrow> db
     \<Rightarrow> error + nearbyDropPointInfo list"
where
  "getNearbyDropPoints hav now loc radiusKm s =
     (let nearby =
            findNearby hav
              \<lparr>flt_location = loc,
               flt_radiusKm = (case radiusKm of None \<Rightarrow> DEFAULT_SEARCH_RADIUS_KM | Some r \<Rightarrow> r),
               flt_limit = Some 10, flt_includeInactive = None\<rparr> s
      in case toLocaleDateString_weekday now ''lowercase'' of
           Inl e \<Rightarrow> Inl e
         | Inr dayOfWeek \<Rightarrow>
             Inr (map (\<lambda>c. \<lparr>near_id = dp_id (point c),
                            near_name = dp_name (point c),
                            near_address = dp_address (point c),
                            near_location = \<lparr>latitude = dp_latitude (point c),
                                             longitude = dp_longitude (point c)\<rparr>,
                            near_distanceKm = wd_distanceKm c,
                            isOpen = isDropPointOpen (operatingHours (point c)) dayOfWeek now\<rparr>)
                      nearby))"

section \<open>Consistent stores\<close>

text \<open>
  Modelled from the spec: the Prisma schema, which declares the keys of the three tables,
  is not among the sources. What the database guarantees of every store the service
  meets: a drop point's identifier is unique, a slot's id is a unique positive value handed
  out by its autoincrement sequence, a listing has at most one assignment, and an
  assignment refers to an existing drop point.
\<close>

definition wf_db :: "db \<Rightarrow> bool" where
  "wf_db s =
     (distinct (map dp_id (dropPoints s))
      \<and> distinct (map slot_id (timeSlots s))
      \<and> list_all (\<lambda>sl. 0 < slot_id sl \<and> slot_id sl \<le> slotSeq s) (timeSlots s)
      \<and> 0 \<le> slotSeq s
      \<and> distinct (map listingId (assignments s))
      \<and> list_all (\<lambda>a. findById s (dropPointId a) \<noteq> None) (assignments s))"

section \<open>Vocabulary of the properties\<close>

text \<open>Names for the locals of \<open>assignDropPoint\<close>: the resolved date, the crates, the candidates.\<close>

definition resolvedDate :: "date \<Rightarrow> assignDropPointInput \<Rightarrow> date" where
  "resolvedDate now inp =
     (case in_preferredDate inp of None \<Rightarrow> getNextBusinessDay now | Some d \<Rightarrow> d)"

text \<open>
  The crates of \<open>assignDropPoint\<close>, on exact reals. \<open>Math.ceil(quantityKg / 50)\<close> on
  IEEE doubles is the same number wherever the division is exact, as at 0; it can differ
  where the quotient is rounded (a positive quantity so small that the quotient is 0, a
  quantity beyond \<open>2^53\<close>).
\<close>

definition cratesNeededFor :: "real \<Rightarrow> int" where
  "cratesNeededFor quantityKg = \<lceil>quantityKg / 50\<rceil> * CRATES_PER_50KG"

definition candidatesFor ::
  "(geoLocation \<Rightarrow> geoLocation \<Rightarrow> real) \<Rightarrow> assignDropPointInput \<Rightarrow> db \<Rightarrow> dropPointWithDistance list"
where
  "candidatesFor hav inp s =
     findNearby hav
       \<lparr>flt_location = in_farmerLocation inp, flt_radiusKm = DEFAULT_SEARCH_RADIUS_KM,
        flt_limit = Some 20, flt_includeInactive = None\<rparr> s"

text \<open>
  The capacity check in the words of the specification: the slot of the point at the
  date and start hour 7, a missing slot counting as the default one (1000 kg, none used),
  has at least the requested kilograms left.
\<close>

definition capacityFeasible :: "db \<Rightarrow> date \<Rightarrow> real \<Rightarrow> string \<Rightarrow> bool" where
  "capacityFeasible s d quantityKg dropPointId' =
     (case findFirstSlot s dropPointId' d 7 of
        None \<Rightarrow> (1000 :: real) - 0 \<ge> quantityKg
      | Some sl \<Rightarrow> maxCapacityKg sl - usedCapacityKg sl \<ge> quantityKg)"

text \<open>
  The crate check in the words of the specification: the inventory count of the
  lower-cased crop type, 0 when absent, is at least the crates needed.
\<close>

definition crateCount :: "dropPoint \<Rightarrow> string \<Rightarrow> int" where
  "crateCount dp cropType =
     (case crateInventory dp of
        None \<Rightarrow> 0
      | Some inventory \<Rightarrow> (case inventory (toLowerCase cropType) of None \<Rightarrow> 0 | Some n \<Rightarrow> n))"

text \<open>A candidate passes both checks; the crate check presupposes an inventory.\<close>

definition passesBoth ::
  "db \<Rightarrow> date \<Rightarrow> real \<Rightarrow> string \<Rightarrow> dropPointWithDistance \<Rightarrow> bool"
where
  "passesBoth s d quantityKg cropType c =
     (capacityFeasible s d quantityKg (dp_id (point c))
      \<and> crateInventory (point c) \<noteq> None
      \<and> crateCount (point c) cropType \<ge> cratesNeededFor quantityKg)"

text \<open>The store as the candidate loop of \<open>assignDropPoint\<close> leaves it.\<close>

definition storeAfterScan ::
  "(geoLocation \<Rightarrow> geoLocation \<Rightarrow> real) \<Rightarrow> date \<Rightarrow> assignDropPointInput \<Rightarrow> db \<Rightarrow> db"
where
  "storeAfterScan hav now inp s =
     snd (scanCandidates (resolvedDate now inp) (in_quantityKg inp) (in_cropType inp)
            (cratesNeededFor (in_quantityKg inp)) (candidatesFor hav inp s) s)"

text \<open>The slot that \<open>checkSlotCapacity\<close> inserts for a key that has none.\<close>

definition freshSlot :: "db \<Rightarrow> string \<Rightarrow> date \<Rightarrow> int \<Rightarrow> timeSlotCapacity" where
  "freshSlot s dropPointId' d startHour =
     \<lparr>slot_id = slotSeq s + 1, slot_dropPointId = dropPointId', slotDate = d,
      slotStartHour = startHour, slotEndHour = startHour + 2,
      maxCapacityKg = 1000, usedCapacityKg = 0\<rparr>"

text \<open>The two checks as the loop evaluates them, read on the store before the loop.\<close>

definition codeFeasible :: "db \<Rightarrow> date \<Rightarrow> real \<Rightarrow> string \<Rightarrow> int \<Rightarrow> dropPointWithDistance \<Rightarrow> bool" where
  "codeFeasible s d q crop n c =
     (capacityFeasible s d q (dp_id (point c))
      \<and> hasAvailability (checkCrateAvailability s (dp_id (point c)) crop n))"

text \<open>The write of \<open>reserveCapacity\<close>.\<close>

definition bumpSlot :: "int \<Rightarrow> real \<Rightarrow> db \<Rightarrow> db" where
  "bumpSlot slotId kg s =
     s\<lparr>timeSlots :=
          map (\<lambda>x. if slot_id x = slotId then x\<lparr>usedCapacityKg := usedCapacityKg x + kg\<rparr> else x)
              (timeSlots s)\<rparr>"

text \<open>Steps 5 to 7 of \<open>assignDropPoint\<close> for a selected candidate and slot id.\<close>

definition completeAssignment ::
  "assignDropPointInput \<Rightarrow> date \<Rightarrow> dropPointWithDistance \<Rightarrow> int option \<Rightarrow> db
     \<Rightarrow> (error + dropPointAssignmentResult) \<times> db"
where
  "completeAssignment inp d sel slotId s2 =
     (case reserveIfSlot slotId (in_quantityKg inp) s2 of
        Inl e \<Rightarrow> (Inl e, s2)
      | Inr s3 \<Rightarrow>
          (case createAssignment
                  \<lparr>ca_listingId = in_listingId inp,
                   ca_dropPointId = dp_id (point sel),
                   ca_farmerId = in_farmerId inp,
                   ca_farmerLocation = in_farmerLocation inp,
                   ca_distanceKm = wd_distanceKm sel,
                   ca_pickupWindowStart = setHours d 7 0 0 0,
                   ca_pickupWindowEnd = setHours d 9 0 0 0,
                   ca_cratesNeeded = cratesNeededFor (in_quantityKg inp)\<rparr> s3 of
             Inl e \<Rightarrow> (Inl e, s3)
           | Inr (a, s4) \<Rightarrow>
               (Inr \<lparr>res_assignment = a,
                     res_dropPoint =
                       \<lparr>info_id = dp_id (point sel), info_name = dp_name (point sel),
                        info_address = dp_address (point sel),
                        info_location = \<lparr>latitude = dp_latitude (point sel),
                                         longitude = dp_longitude (point sel)\<rparr>,
                        info_distanceKm = wd_distanceKm sel\<rparr>,
                     res_pickupWindow =
                       \<lparr>window_start = setHours d 7 0 0 0, window_end = setHours d 9 0 0 0\<rparr>,
                     res_cratesNeeded = cratesNeededFor (in_quantityKg inp)\<rparr>, s4)))"

text \<open>The row that \<open>assignDropPoint\<close> creates for a selected candidate.\<close>

definition newAssignment ::
  "assignDropPointInput \<Rightarrow> date \<Rightarrow> dropPointWithDistance \<Rightarrow> db \<Rightarrow> dropPointAssignment"
where
  "newAssignment inp d sel s =
     \<lparr>assignment_id = assignmentSeq s + 1,
      listingId = in_listingId inp,
      dropPointId = dp_id (point sel),
      farmerId = in_farmerId inp,
      farmerLatitude = latitude (in_farmerLocation inp),
      farmerLongitude = longitude (in_farmerLocation inp),
      distanceKm = wd_distanceKm sel,
      pickupWindowStart = setHours d 7 0 0 0,
      pickupWindowEnd = setHours d 9 0 0 0,
      cratesNeeded = cratesNeededFor (in_quantityKg inp),
      status = ASSIGNED,
      changeReason = None,
      previousDropPointId = None\<rparr>"

text \<open>The result that \<open>assignDropPoint\<close> returns for a selected candidate.\<close>

definition resultFor ::
  "assignDropPointInput \<Rightarrow> date \<Rightarrow> dropPointWithDistance \<Rightarrow> db \<Rightarrow> dropPointAssignmentResult"
where
  "resultFor inp d sel s =
     \<lparr>res_assignment = newAssignment inp d sel s,
      res_dropPoint =
        \<lparr>info_id = dp_id (point sel), info_name = dp_name (point sel),
         info_address = dp_address (point sel),
         info_location = \<lparr>latitude = dp_latitude (point sel),
                          longitude = dp_longitude (point sel)\<rparr>,
         info_distanceKm = wd_distanceKm sel\<rparr>,
      res_pickupWindow =
        \<lparr>window_start = setHours d 7 0 0 0, window_end = setHours d 9 0 0 0\<rparr>,
      res_cratesNeeded = cratesNeededFor (in_quantityKg inp)\<rparr>"

text \<open>
  The candidates that the loop examines: those before the first one that passes, and that
  one.
\<close>

fun scannedCandidates ::
  "(dropPointWithDistance \<Rightarrow> bool) \<Rightarrow> dropPointWithDistance list \<Rightarrow> dropPointWithDistance list"
where
  "scannedCandidates passes [] = []"
| "scannedCandidates passes (c # cs) =
     (if passes c then [c] else c # scannedCandidates passes cs)"

text \<open>
  The default slots for the points of a list, in order, with the ids that the sequence
  hands out after \<open>seq\<close>.
\<close>

fun insertedSlots :: "int \<Rightarrow> date \<Rightarrow> dropPointWithDistance list \<Rightarrow> timeSlotCapacity list" where
  "insertedSlots seq d [] = []"
| "insertedSlots seq d (c # cs) =
     \<lparr>slot_id = seq + 1, slot_dropPointId = dp_id (point c), slotDate = d,
      slotStartHour = 7, slotEndHour = 9, maxCapacityKg = 1000, usedCapacityKg = 0\<rparr>
     # insertedSlots (seq + 1) d cs"

section \<open>Example data\<close>

text \<open>A stand-in for the great-circle distance on the examples: the sum of the offsets.\<close>

definition offsetDistance :: "geoLocation \<Rightarrow> geoLocation \<Rightarrow> real" where
  "offsetDistance p q = \<bar>latitude q - latitude p\<bar> + \<bar>longitude q - longitude p\<bar>"

definition weekdayHours :: "string \<rightharpoonup> hours" where
  "weekdayHours =
     [''monday'' \<mapsto> \<lparr>hours_open = ''06:00'', hours_close = ''18:00''\<rparr>,
      ''sunday'' \<mapsto> \<lparr>hours_open = ''00:00'', hours_close = ''00:00''\<rparr>]"

definition nearPoint :: dropPoint where
  "nearPoint =
     \<lparr>dp_id = ''dp-001'', dp_name = ''Kolar Main Point'', dp_address = ''Near KSRTC, Kolar'',
      dp_district = ''Kolar'', dp_latitude = 1, dp_longitude = 0, isActive = True,
      operatingHours = Some weekdayHours, crateInventory = None\<rparr>"

definition farPoint :: dropPoint where
  "farPoint =
     \<lparr>dp_id = ''dp-002'', dp_name = ''Mulbagal Point'', dp_address = ''Main Road, Mulbagal'',
      dp_district = ''Kolar'', dp_latitude = 2, dp_longitude = 0, isActive = True,
      operatingHours = Some weekdayHours, crateInventory = Some [''tomato'' \<mapsto> 5]\<rparr>"

definition twoPoints :: db where
  "twoPoints =
     \<lparr>dropPoints = [farPoint, nearPoint], timeSlots = [], assignments = [],
      slotSeq = 0, assignmentSeq = 0\<rparr>"

definition noPoints :: db where
  "noPoints =
     \<lparr>dropPoints = [], timeSlots = [], assignments = [], slotSeq = 0, assignmentSeq = 0\<rparr>"

definition request :: "real \<Rightarrow> assignDropPointInput" where
  "request quantityKg =
     \<lparr>in_listingId = 1, in_farmerId = 7, in_farmerLocation = \<lparr>latitude = 0, longitude = 0\<rparr>,
      in_cropType = ''Tomato'', in_quantityKg = quantityKg, in_preferredDate = Some 0\<rparr>"

text \<open>A store in which listing 1 is assigned to the nearer point.\<close>

definition sampleAssignment :: dropPointAssignment where
  "sampleAssignment =
     \<lparr>assignment_id = 1, listingId = 1, dropPointId = ''dp-001'', farmerId = 7,
      farmerLatitude = 0, farmerLongitude = 0, distanceKm = 1,
      pickupWindowStart = 25200000, pickupWindowEnd = 32400000, cratesNeeded = 2,
      status = ASSIGNED, changeReason = None, previousDropPointId = None\<rparr>"

definition assignedStore :: db where
  "assignedStore = twoPoints\<lparr>assignments := [sampleAssignment], assignmentSeq := 1\<rparr>"

text \<open>The Monday of the first week of the epoch at a full hour.\<close>

definition mondayAt :: "int \<Rightarrow> date" where
  "mondayAt h = 4 * 86400000 + h * 3600000"

text \<open>The same two points, the nearer one with crates in stock.\<close>

definition stockedPoint :: dropPoint where
  "stockedPoint = nearPoint\<lparr>crateInventory := Some [''tomato'' \<mapsto> 5]\<rparr>"

definition stockedStore :: db where
  "stockedStore = twoPoints\<lparr>dropPoints := [farPoint, stockedPoint]\<rparr>"

section \<open>Properties of the repository and of the candidate loop\<close>

lemma find_append_eq:
  "find P (xs @ ys) = (case find P xs of None \<Rightarrow> find P ys | Some x \<Rightarrow> Some x)"
  by (induction xs) auto

lemma checkSlotCapacity_found:
  assumes "findFirstSlot s i d h = Some sl"
  shows "checkSlotCapacity i d h q s =
           (\<lparr>hasCapacity = (maxCapacityKg sl - usedCapacityKg sl \<ge> q),
             availableKg = maxCapacityKg sl - usedCapacityKg sl, slot = Some sl\<rparr>, s)"
  using assms by (simp add: checkSlotCapacity_def Let_def)

lemma checkSlotCapacity_created:
  assumes "findFirstSlot s i d h = None"
  shows "checkSlotCapacity i d h q s =
           (\<lparr>hasCapacity = (1000 \<ge> q), availableKg = 1000, slot = Some (freshSlot s i d h)\<rparr>,
            s\<lparr>timeSlots := timeSlots s @ [freshSlot s i d h], slotSeq := slotSeq s + 1\<rparr>)"
  using assms by (simp add: checkSlotCapacity_def freshSlot_def Let_def)

lemma checkSlotCapacity_hasCapacity:
  "hasCapacity (fst (checkSlotCapacity i d 7 q s)) = capacityFeasible s d q i"
  by (cases "findFirstSlot s i d 7")
     (simp_all add: checkSlotCapacity_found checkSlotCapacity_created capacityFeasible_def)

lemma checkSlotCapacity_frame:
  "dropPoints (snd (checkSlotCapacity i d h q s)) = dropPoints s"
  "assignments (snd (checkSlotCapacity i d h q s)) = assignments s"
  "assignmentSeq (snd (checkSlotCapacity i d h q s)) = assignmentSeq s"
  by (cases "findFirstSlot s i d h";
      simp add: checkSlotCapacity_found checkSlotCapacity_created)+

lemma checkSlotCapacity_resolves:
  "findFirstSlot (snd (checkSlotCapacity i d h q s)) i d h = slot (fst (checkSlotCapacity i d h q s))"
  "slot (fst (checkSlotCapacity i d h q s)) \<noteq> None"
proof -
  show "findFirstSlot (snd (checkSlotCapacity i d h q s)) i d h = slot (fst (checkSlotCapacity i d h q s))"
  proof (cases "findFirstSlot s i d h")
    case None
    then have "find (\<lambda>sl. slot_dropPointId sl = i \<and> slotDate sl = d \<and> slotStartHour sl = h) (timeSlots s) = None"
      by (simp add: findFirstSlot_def)
    with None show ?thesis
      by (simp add: checkSlotCapacity_created findFirstSlot_def find_append_eq freshSlot_def)
  next
    case (Some sl)
    then show ?thesis by (simp add: checkSlotCapacity_found)
  qed
  show "slot (fst (checkSlotCapacity i d h q s)) \<noteq> None"
    by (cases "findFirstSlot s i d h")
       (simp_all add: checkSlotCapacity_found checkSlotCapacity_created)
qed

lemma checkSlotCapacity_keeps_slot:
  assumes "findFirstSlot s j d' h' = Some sl"
  shows "findFirstSlot (snd (checkSlotCapacity i d h q s)) j d' h' = Some sl"
proof (cases "findFirstSlot s i d h")
  case None
  with assms show ?thesis
    by (simp add: checkSlotCapacity_created findFirstSlot_def find_append_eq)
next
  case (Some a)
  with assms show ?thesis by (simp add: checkSlotCapacity_found)
qed

lemma checkSlotCapacity_keeps_feasible:
  "capacityFeasible (snd (checkSlotCapacity i d 7 q' s)) d q j = capacityFeasible s d q j"
proof (cases "findFirstSlot s j d 7")
  case (Some sl)
  then show ?thesis
    by (simp add: capacityFeasible_def checkSlotCapacity_keeps_slot)
next
  case None
  show ?thesis
  proof (cases "findFirstSlot s i d 7")
    case (Some a)
    then show ?thesis by (simp add: checkSlotCapacity_found)
  next
    case n: None
    from None have "find (\<lambda>sl. slot_dropPointId sl = j \<and> slotDate sl = d \<and> slotStartHour sl = 7) (timeSlots s) = None"
      by (simp add: findFirstSlot_def)
    with None n show ?thesis
      by (simp add: capacityFeasible_def checkSlotCapacity_created findFirstSlot_def
          find_append_eq freshSlot_def)
  qed
qed

lemma checkCrateAvailability_cong:
  "dropPoints s' = dropPoints s \<Longrightarrow> checkCrateAvailability s' = checkCrateAvailability s"
  by (intro ext) (simp add: checkCrateAvailability_def findById_def)

lemma codeFeasible_after_check:
  "codeFeasible (snd (checkSlotCapacity i d 7 q' s)) d q crop n = codeFeasible s d q crop n"
  by (intro ext)
     (simp add: codeFeasible_def checkSlotCapacity_keeps_feasible
        checkCrateAvailability_cong [OF checkSlotCapacity_frame(1)])

lemma scan_Cons:
  "scanCandidates d q crop n (c # cs) s =
     (if hasCapacity (fst (checkSlotCapacity (dp_id (point c)) d 7 q s))
         \<and> hasAvailability
              (checkCrateAvailability (snd (checkSlotCapacity (dp_id (point c)) d 7 q s))
                 (dp_id (point c)) crop n)
      then (Some (c, map_option slot_id (slot (fst (checkSlotCapacity (dp_id (point c)) d 7 q s)))),
            snd (checkSlotCapacity (dp_id (point c)) d 7 q s))
      else scanCandidates d q crop n cs (snd (checkSlotCapacity (dp_id (point c)) d 7 q s)))"
  by (simp add: DEFAULT_TIME_SLOT_START_HOUR_def split: prod.splits)

lemma scan_selects:
  "map_option fst (fst (scanCandidates d q crop n cs s)) = find (codeFeasible s d q crop n) cs"
proof (induction cs arbitrary: s)
  case Nil
  then show ?case by simp
next
  case (Cons c cs)
  obtain cap s1 where chk: "checkSlotCapacity (dp_id (point c)) d 7 q s = (cap, s1)"
    by (cases "checkSlotCapacity (dp_id (point c)) d 7 q s")
  have cap: "hasCapacity cap = capacityFeasible s d q (dp_id (point c))"
    using checkSlotCapacity_hasCapacity [of "dp_id (point c)" d q s] chk by simp
  have s1: "s1 = snd (checkSlotCapacity (dp_id (point c)) d 7 q s)"
    using chk by simp
  have crate: "checkCrateAvailability s1 = checkCrateAvailability s"
    unfolding s1 by (rule checkCrateAvailability_cong) (rule checkSlotCapacity_frame)
  have feas: "codeFeasible s1 d q crop n = codeFeasible s d q crop n"
    unfolding s1 by (rule codeFeasible_after_check)
  show ?case
    using Cons.IH [of s1] chk cap crate feas
    by (simp add: DEFAULT_TIME_SLOT_START_HOUR_def codeFeasible_def)
qed

lemma scan_frame:
  "dropPoints (snd (scanCandidates d q crop n cs s)) = dropPoints s"
  "assignments (snd (scanCandidates d q crop n cs s)) = assignments s"
  "assignmentSeq (snd (scanCandidates d q crop n cs s)) = assignmentSeq s"
proof (induction cs arbitrary: s)
  case Nil
  {
    case 1 show ?case by simp
  next
    case 2 show ?case by simp
  next
    case 3 show ?case by simp
  }
next
  case (Cons c cs)
  {
    case 1
    show ?case
      using Cons.IH(1) [of "snd (checkSlotCapacity (dp_id (point c)) d 7 q s)"]
      by (simp add: scan_Cons checkSlotCapacity_frame del: scanCandidates.simps(2))
  next
    case 2
    show ?case
      using Cons.IH(2) [of "snd (checkSlotCapacity (dp_id (point c)) d 7 q s)"]
      by (simp add: scan_Cons checkSlotCapacity_frame del: scanCandidates.simps(2))
  next
    case 3
    show ?case
      using Cons.IH(3) [of "snd (checkSlotCapacity (dp_id (point c)) d 7 q s)"]
      by (simp add: scan_Cons checkSlotCapacity_frame del: scanCandidates.simps(2))
  }
qed

lemma scan_keeps_slot:
  "findFirstSlot s j d' h' = Some sl \<Longrightarrow>
     findFirstSlot (snd (scanCandidates d q crop n cs s)) j d' h' = Some sl"
proof (induction cs arbitrary: s)
  case Nil
  then show ?case by simp
next
  case (Cons c cs)
  let ?s1 = "snd (checkSlotCapacity (dp_id (point c)) d 7 q s)"
  have "findFirstSlot ?s1 j d' h' = Some sl"
    using Cons.prems by (rule checkSlotCapacity_keeps_slot)
  then show ?case
    using Cons.IH [of ?s1]
    by (simp add: scan_Cons del: scanCandidates.simps(2))
qed

lemma scan_found_slot:
  "fst (scanCandidates d q crop n cs s) = Some (c, i) \<Longrightarrow>
     findFirstSlot (snd (scanCandidates d q crop n cs s)) (dp_id (point c)) d 7 \<noteq> None
     \<and> i = map_option slot_id
             (findFirstSlot (snd (scanCandidates d q crop n cs s)) (dp_id (point c)) d 7)"
proof (induction cs arbitrary: s)
  case Nil
  then show ?case by simp
next
  case (Cons a cs)
  let ?chk = "checkSlotCapacity (dp_id (point a)) d 7 q s"
  have res: "findFirstSlot (snd ?chk) (dp_id (point a)) d 7 = slot (fst ?chk)"
    "slot (fst ?chk) \<noteq> None"
    by (rule checkSlotCapacity_resolves)+
  show ?case
    using Cons.prems Cons.IH [of "snd ?chk"] res
    by (auto simp: scan_Cons simp del: scanCandidates.simps(2) split: if_splits)
qed

lemma scan_visits_head:
  "findFirstSlot (snd (scanCandidates d q crop n (c # cs) s)) (dp_id (point c)) d 7 \<noteq> None"
proof -
  let ?chk = "checkSlotCapacity (dp_id (point c)) d 7 q s"
  obtain sl where sl: "findFirstSlot (snd ?chk) (dp_id (point c)) d 7 = Some sl"
    using checkSlotCapacity_resolves [of "dp_id (point c)" d 7 q s] by auto
  have "findFirstSlot (snd (scanCandidates d q crop n cs (snd ?chk))) (dp_id (point c)) d 7 = Some sl"
    using sl by (rule scan_keeps_slot)
  with sl show ?thesis
    by (simp add: scan_Cons del: scanCandidates.simps(2))
qed

lemma wf_checkSlotCapacity:
  assumes "wf_db s"
  shows "wf_db (snd (checkSlotCapacity i d h q s))"
proof (cases "findFirstSlot s i d h")
  case None
  have "slotSeq s + 1 \<notin> slot_id ` set (timeSlots s)"
    using assms by (auto simp: wf_db_def list_all_iff)
  with assms None show ?thesis
    by (auto simp: checkSlotCapacity_created wf_db_def freshSlot_def list_all_iff findById_def)
next
  case (Some a)
  with assms show ?thesis by (simp add: checkSlotCapacity_found)
qed

lemma wf_scan:
  "wf_db s \<Longrightarrow> wf_db (snd (scanCandidates d q crop n cs s))"
proof (induction cs arbitrary: s)
  case Nil
  then show ?case by simp
next
  case (Cons c cs)
  let ?s1 = "snd (checkSlotCapacity (dp_id (point c)) d 7 q s)"
  have "wf_db ?s1" using Cons.prems by (rule wf_checkSlotCapacity)
  then show ?case
    using Cons.IH [of ?s1]
    by (simp add: scan_Cons del: scanCandidates.simps(2))
qed

lemma findNearby_points:
  "c \<in> set (findNearby hav f s) \<Longrightarrow> point c \<in> set (dropPoints s)"
  by (auto simp: findNearby_def Let_def dest!: in_set_takeD)

lemma find_key_distinct:
  "distinct (map f xs) \<Longrightarrow> x \<in> set xs \<Longrightarrow> find (\<lambda>y. f y = f x) xs = Some x"
  by (induction xs) (auto simp: image_iff)

lemma findById_distinct:
  "distinct (map dp_id (dropPoints s)) \<Longrightarrow> dp \<in> set (dropPoints s) \<Longrightarrow>
     findById s (dp_id dp) = Some dp"
  unfolding findById_def by (rule find_key_distinct)

lemma codeFeasible_passesBoth:
  assumes "wf_db s" and "c \<in> set (findNearby hav f s)"
  shows "codeFeasible s d q crop (cratesNeededFor q) c = passesBoth s d q crop c"
proof -
  have "findById s (dp_id (point c)) = Some (point c)"
    using assms by (simp add: wf_db_def findById_distinct findNearby_points)
  then show ?thesis
    by (simp add: codeFeasible_def passesBoth_def checkCrateAvailability_def crateCount_def
          Let_def split: option.splits)
qed

lemma assignDropPoint_empty:
  "candidatesFor hav inp s = [] \<Longrightarrow>
     assignDropPoint hav now inp s =
       (Inl (DropPointAssignmentError ''No drop points found within search radius''
               ''NO_DROP_POINTS''), s)"
  by (simp add: assignDropPoint_def candidatesFor_def)

lemma assignDropPoint_unfold:
  assumes "candidatesFor hav inp s \<noteq> []"
  shows "assignDropPoint hav now inp s =
     (case fst (scanCandidates (resolvedDate now inp) (in_quantityKg inp) (in_cropType inp)
                 (cratesNeededFor (in_quantityKg inp)) (candidatesFor hav inp s) s) of
        Some (c, i) \<Rightarrow>
          completeAssignment inp (resolvedDate now inp) c i (storeAfterScan hav now inp s)
      | None \<Rightarrow>
          completeAssignment inp (resolvedDate now inp) (candidatesFor hav inp s ! 0)
            (map_option slot_id
               (slot (fst (checkSlotCapacity (dp_id (point (candidatesFor hav inp s ! 0)))
                             (resolvedDate now inp) 7 (in_quantityKg inp)
                             (storeAfterScan hav now inp s)))))
            (snd (checkSlotCapacity (dp_id (point (candidatesFor hav inp s ! 0)))
                    (resolvedDate now inp) 7 (in_quantityKg inp)
                    (storeAfterScan hav now inp s))))"
  using assms
  unfolding assignDropPoint_def completeAssignment_def storeAfterScan_def
        resolvedDate_def cratesNeededFor_def candidatesFor_def Let_def case_prod_beta
        DEFAULT_TIME_SLOT_START_HOUR_def DEFAULT_TIME_SLOT_DURATION_HOURS_def
  by (cases "fst (scanCandidates
                (case in_preferredDate inp of None \<Rightarrow> getNextBusinessDay now | Some d \<Rightarrow> d)
                (in_quantityKg inp) (in_cropType inp)
                (\<lceil>in_quantityKg inp / 50\<rceil> * CRATES_PER_50KG)
                (findNearby hav
                   \<lparr>flt_location = in_farmerLocation inp, flt_radiusKm = DEFAULT_SEARCH_RADIUS_KM,
                    flt_limit = Some 20, flt_includeInactive = None\<rparr> s) s)")
     (simp_all add: case_prod_beta cong: sum.case_cong)

lemma findFirstSlot_in_set:
  "findFirstSlot s i d h = Some sl \<Longrightarrow>
     sl \<in> set (timeSlots s) \<and> slot_dropPointId sl = i \<and> slotDate sl = d \<and> slotStartHour sl = h"
  by (auto simp: findFirstSlot_def find_Some_iff)

lemma reserveIfSlot_found:
  assumes "sl \<in> set (timeSlots s)"
  shows "reserveIfSlot (Some (slot_id sl)) q s =
           Inr (if slot_id sl \<noteq> 0 then bumpSlot (slot_id sl) q s else s)"
proof -
  have "find (\<lambda>x. slot_id x = slot_id sl) (timeSlots s) \<noteq> None"
    using assms by (auto simp: find_None_iff)
  then show ?thesis
    by (auto simp: reserveIfSlot_def reserveCapacity_def bumpSlot_def)
qed

lemma completeAssignment_result:
  assumes "sl \<in> set (timeSlots s1)"
  shows "completeAssignment inp d sel (Some (slot_id sl)) s1 =
     (case getAssignmentByListingId s1 (in_listingId inp) of
        Some _ \<Rightarrow>
          (Inl (PrismaClientKnownRequestError ''P2002''),
           if slot_id sl \<noteq> 0 then bumpSlot (slot_id sl) (in_quantityKg inp) s1 else s1)
      | None \<Rightarrow>
          (Inr (resultFor inp d sel s1),
           (if slot_id sl \<noteq> 0 then bumpSlot (slot_id sl) (in_quantityKg inp) s1 else s1)
             \<lparr>assignments := assignments s1 @ [newAssignment inp d sel s1],
              assignmentSeq := assignmentSeq s1 + 1\<rparr>))"
  by (simp add: completeAssignment_def reserveIfSlot_found [OF assms] createAssignment_def
        getAssignmentByListingId_def bumpSlot_def resultFor_def newAssignment_def Let_def
      split: option.splits)

lemma assignDropPoint_run:
  assumes ne: "candidatesFor hav inp s \<noteq> []"
  shows "\<exists>sel sl.
           sel = (case find (codeFeasible s (resolvedDate now inp) (in_quantityKg inp)
                               (in_cropType inp) (cratesNeededFor (in_quantityKg inp)))
                         (candidatesFor hav inp s) of
                    Some c \<Rightarrow> c
                  | None \<Rightarrow> candidatesFor hav inp s ! 0)
         \<and> findFirstSlot (storeAfterScan hav now inp s) (dp_id (point sel))
               (resolvedDate now inp) 7 = Some sl
         \<and> assignDropPoint hav now inp s =
               completeAssignment inp (resolvedDate now inp) sel (Some (slot_id sl))
                 (storeAfterScan hav now inp s)"
proof -
  define d where "d = resolvedDate now inp"
  define q where "q = in_quantityKg inp"
  define cs where "cs = candidatesFor hav inp s"
  define s1 where "s1 = storeAfterScan hav now inp s"
  let ?scan = "scanCandidates d q (in_cropType inp) (cratesNeededFor q) cs s"
  have s1: "s1 = snd ?scan"
    by (simp add: s1_def storeAfterScan_def d_def q_def cs_def)
  have sel: "map_option fst (fst ?scan)
               = find (codeFeasible s d q (in_cropType inp) (cratesNeededFor q)) cs"
    by (rule scan_selects)
  have unfold: "assignDropPoint hav now inp s =
     (case fst ?scan of
        Some (c, i) \<Rightarrow> completeAssignment inp d c i s1
      | None \<Rightarrow>
          completeAssignment inp d (cs ! 0)
            (map_option slot_id (slot (fst (checkSlotCapacity (dp_id (point (cs ! 0))) d 7 q s1))))
            (snd (checkSlotCapacity (dp_id (point (cs ! 0))) d 7 q s1)))"
    unfolding d_def q_def cs_def s1_def by (rule assignDropPoint_unfold [OF ne])
  have main: "\<exists>sel sl.
           sel = (case find (codeFeasible s d q (in_cropType inp) (cratesNeededFor q)) cs of
                    Some c \<Rightarrow> c
                  | None \<Rightarrow> cs ! 0)
         \<and> findFirstSlot s1 (dp_id (point sel)) d 7 = Some sl
         \<and> assignDropPoint hav now inp s = completeAssignment inp d sel (Some (slot_id sl)) s1"
  proof (cases "fst ?scan")
    case None
    obtain c0 rest where cs: "cs = c0 # rest"
      using ne by (cases cs) (auto simp: cs_def)
    have "findFirstSlot s1 (dp_id (point c0)) d 7 \<noteq> None"
      unfolding s1 cs by (rule scan_visits_head)
    then obtain sl where sl: "findFirstSlot s1 (dp_id (point c0)) d 7 = Some sl"
      by auto
    have "find (codeFeasible s d q (in_cropType inp) (cratesNeededFor q)) cs = None"
      using sel None by simp
    moreover have "assignDropPoint hav now inp s
                     = completeAssignment inp d c0 (Some (slot_id sl)) s1"
      using unfold None sl by (simp add: checkSlotCapacity_found cs)
    ultimately show ?thesis
      using sl by (simp add: cs)
  next
    case (Some p)
    obtain c i where p: "p = (c, i)" by (cases p)
    have found: "find (codeFeasible s d q (in_cropType inp) (cratesNeededFor q)) cs = Some c"
      using sel Some p by simp
    have "findFirstSlot s1 (dp_id (point c)) d 7 \<noteq> None
          \<and> i = map_option slot_id (findFirstSlot s1 (dp_id (point c)) d 7)"
      unfolding s1 using Some p by (intro scan_found_slot) simp
    then obtain sl where sl: "findFirstSlot s1 (dp_id (point c)) d 7 = Some sl" "i = Some (slot_id sl)"
      by auto
    have "assignDropPoint hav now inp s = completeAssignment inp d c (Some (slot_id sl)) s1"
      using unfold Some p sl by simp
    with found sl show ?thesis by simp
  qed
  then show ?thesis
    unfolding d_def q_def cs_def s1_def .
qed


lemma sort_key_Nil_iff:
  "(sort_key f xs = []) = (xs = [])"
  by (metis set_sort set_empty)

lemma findNearby_empty_iff:
  "findNearby hav \<lparr>flt_location = loc, flt_radiusKm = r, flt_limit = Some 20,
                   flt_includeInactive = None\<rparr> s = []
   \<longleftrightarrow> (\<forall>dp \<in> set (dropPoints s).
          isActive dp \<longrightarrow>
            \<not> hav loc \<lparr>latitude = dp_latitude dp, longitude = dp_longitude dp\<rparr> \<le> r)"
  by (auto simp: findNearby_def Let_def sort_key_Nil_iff filter_empty_conv)

lemma bumpSlot_list_update:
  assumes "distinct (map slot_id (timeSlots s))" and "k < length (timeSlots s)"
  shows "timeSlots (bumpSlot (slot_id (timeSlots s ! k)) q s) =
           (timeSlots s)[k := (timeSlots s ! k)
                              \<lparr>usedCapacityKg := usedCapacityKg (timeSlots s ! k) + q\<rparr>]"
proof (rule nth_equalityI)
  show "length (timeSlots (bumpSlot (slot_id (timeSlots s ! k)) q s)) =
        length ((timeSlots s)[k := (timeSlots s ! k)
                              \<lparr>usedCapacityKg := usedCapacityKg (timeSlots s ! k) + q\<rparr>])"
    by (simp add: bumpSlot_def)
next
  fix j
  assume "j < length (timeSlots (bumpSlot (slot_id (timeSlots s ! k)) q s))"
  then have j: "j < length (timeSlots s)" by (simp add: bumpSlot_def)
  have "slot_id (timeSlots s ! j) = slot_id (timeSlots s ! k) \<longleftrightarrow> j = k"
    using nth_eq_iff_index_eq [of "map slot_id (timeSlots s)" j k] assms j by simp
  then show "timeSlots (bumpSlot (slot_id (timeSlots s ! k)) q s) ! j =
        (timeSlots s)[k := (timeSlots s ! k)
                              \<lparr>usedCapacityKg := usedCapacityKg (timeSlots s ! k) + q\<rparr>] ! j"
    using j by (auto simp: bumpSlot_def)
qed

lemma assignDropPoint_outcome:
  assumes ne: "candidatesFor hav inp s \<noteq> []"
  shows "\<exists>sel sl.
           sel = (case find (codeFeasible s (resolvedDate now inp) (in_quantityKg inp)
                               (in_cropType inp) (cratesNeededFor (in_quantityKg inp)))
                         (candidatesFor hav inp s) of
                    Some c \<Rightarrow> c
                  | None \<Rightarrow> candidatesFor hav inp s ! 0)
         \<and> findFirstSlot (storeAfterScan hav now inp s) (dp_id (point sel))
               (resolvedDate now inp) 7 = Some sl
         \<and> assignDropPoint hav now inp s =
             (case getAssignmentByListingId s (in_listingId inp) of
                Some _ \<Rightarrow>
                  (Inl (PrismaClientKnownRequestError ''P2002''),
                   if slot_id sl \<noteq> 0
                   then bumpSlot (slot_id sl) (in_quantityKg inp) (storeAfterScan hav now inp s)
                   else storeAfterScan hav now inp s)
              | None \<Rightarrow>
                  (Inr (resultFor inp (resolvedDate now inp) sel s),
                   (if slot_id sl \<noteq> 0
                    then bumpSlot (slot_id sl) (in_quantityKg inp) (storeAfterScan hav now inp s)
                    else storeAfterScan hav now inp s)
                     \<lparr>assignments :=
                        assignments s @ [newAssignment inp (resolvedDate now inp) sel s],
                      assignmentSeq := assignmentSeq s + 1\<rparr>))"
proof -
  let ?s1 = "storeAfterScan hav now inp s"
  have frame: "assignments ?s1 = assignments s" "assignmentSeq ?s1 = assignmentSeq s"
    by (simp_all add: storeAfterScan_def scan_frame)
  then have same: "getAssignmentByListingId ?s1 = getAssignmentByListingId s"
    "newAssignment inp d sel ?s1 = newAssignment inp d sel s"
    "resultFor inp d sel ?s1 = resultFor inp d sel s" for d sel
    by (simp_all add: getAssignmentByListingId_def newAssignment_def resultFor_def fun_eq_iff)
  obtain sel sl where
    sel: "sel = (case find (codeFeasible s (resolvedDate now inp) (in_quantityKg inp)
                               (in_cropType inp) (cratesNeededFor (in_quantityKg inp)))
                         (candidatesFor hav inp s) of
                    Some c \<Rightarrow> c
                  | None \<Rightarrow> candidatesFor hav inp s ! 0)"
    and sl: "findFirstSlot ?s1 (dp_id (point sel)) (resolvedDate now inp) 7 = Some sl"
    and run: "assignDropPoint hav now inp s =
               completeAssignment inp (resolvedDate now inp) sel (Some (slot_id sl)) ?s1"
    using assignDropPoint_run [OF ne, of now] by blast
  have "sl \<in> set (timeSlots ?s1)"
    using sl by (simp add: findFirstSlot_in_set)
  then have "assignDropPoint hav now inp s =
             (case getAssignmentByListingId s (in_listingId inp) of
                Some _ \<Rightarrow>
                  (Inl (PrismaClientKnownRequestError ''P2002''),
                   if slot_id sl \<noteq> 0
                   then bumpSlot (slot_id sl) (in_quantityKg inp) ?s1
                   else ?s1)
              | None \<Rightarrow>
                  (Inr (resultFor inp (resolvedDate now inp) sel s),
                   (if slot_id sl \<noteq> 0
                    then bumpSlot (slot_id sl) (in_quantityKg inp) ?s1
                    else ?s1)
                     \<lparr>assignments :=
                        assignments s @ [newAssignment inp (resolvedDate now inp) sel s],
                      assignmentSeq := assignmentSeq s + 1\<rparr>))"
    unfolding run by (simp add: completeAssignment_result same frame split: option.splits)
  with sel sl show ?thesis by blast
qed

lemma assignDropPoint_success:
  assumes ok: "assignDropPoint hav now inp s = (Inr r, s')"
  shows "candidatesFor hav inp s \<noteq> []"
    and "getAssignmentByListingId s (in_listingId inp) = None"
    and "\<exists>sel sl.
           sel = (case find (codeFeasible s (resolvedDate now inp) (in_quantityKg inp)
                               (in_cropType inp) (cratesNeededFor (in_quantityKg inp)))
                         (candidatesFor hav inp s) of
                    Some c \<Rightarrow> c
                  | None \<Rightarrow> candidatesFor hav inp s ! 0)
         \<and> findFirstSlot (storeAfterScan hav now inp s) (dp_id (point sel))
               (resolvedDate now inp) 7 = Some sl
         \<and> r = resultFor inp (resolvedDate now inp) sel s
         \<and> s' = (if slot_id sl \<noteq> 0
                  then bumpSlot (slot_id sl) (in_quantityKg inp) (storeAfterScan hav now inp s)
                  else storeAfterScan hav now inp s)
                   \<lparr>assignments :=
                      assignments s @ [newAssignment inp (resolvedDate now inp) sel s],
                    assignmentSeq := assignmentSeq s + 1\<rparr>"
proof -
  show ne: "candidatesFor hav inp s \<noteq> []"
    using ok assignDropPoint_empty [of hav inp s now] by auto
  from assignDropPoint_outcome [OF ne, of now] obtain sel sl where
    sel: "sel = (case find (codeFeasible s (resolvedDate now inp) (in_quantityKg inp)
                               (in_cropType inp) (cratesNeededFor (in_quantityKg inp)))
                         (candidatesFor hav inp s) of
                    Some c \<Rightarrow> c
                  | None \<Rightarrow> candidatesFor hav inp s ! 0)"
    and sl: "findFirstSlot (storeAfterScan hav now inp s) (dp_id (point sel))
               (resolvedDate now inp) 7 = Some sl"
    and out: "assignDropPoint hav now inp s =
             (case getAssignmentByListingId s (in_listingId inp) of
                Some _ \<Rightarrow>
                  (Inl (PrismaClientKnownRequestError ''P2002''),
                   if slot_id sl \<noteq> 0
                   then bumpSlot (slot_id sl) (in_quantityKg inp) (storeAfterScan hav now inp s)
                   else storeAfterScan hav now inp s)
              | None \<Rightarrow>
                  (Inr (resultFor inp (resolvedDate now inp) sel s),
                   (if slot_id sl \<noteq> 0
                    then bumpSlot (slot_id sl) (in_quantityKg inp) (storeAfterScan hav now inp s)
                    else storeAfterScan hav now inp s)
                     \<lparr>assignments :=
                        assignments s @ [newAssignment inp (resolvedDate now inp) sel s],
                      assignmentSeq := assignmentSeq s + 1\<rparr>))"
    by blast
  show un: "getAssignmentByListingId s (in_listingId inp) = None"
    using ok out by (cases "getAssignmentByListingId s (in_listingId inp)") auto
  show "\<exists>sel sl.
           sel = (case find (codeFeasible s (resolvedDate now inp) (in_quantityKg inp)
                               (in_cropType inp) (cratesNeededFor (in_quantityKg inp)))
                         (candidatesFor hav inp s) of
                    Some c \<Rightarrow> c
                  | None \<Rightarrow> candidatesFor hav inp s ! 0)
         \<and> findFirstSlot (storeAfterScan hav now inp s) (dp_id (point sel))
               (resolvedDate now inp) 7 = Some sl
         \<and> r = resultFor inp (resolvedDate now inp) sel s
         \<and> s' = (if slot_id sl \<noteq> 0
                  then bumpSlot (slot_id sl) (in_quantityKg inp) (storeAfterScan hav now inp s)
                  else storeAfterScan hav now inp s)
                   \<lparr>assignments :=
                      assignments s @ [newAssignment inp (resolvedDate now inp) sel s],
                    assignmentSeq := assignmentSeq s + 1\<rparr>"
    using ok out un sel sl by auto
qed


lemma storeAfterScan_wf:
  "wf_db s \<Longrightarrow> wf_db (storeAfterScan hav now inp s)"
  by (simp add: storeAfterScan_def wf_scan)

lemma assignDropPoint_effects:
  assumes wf: "wf_db s" and ok: "assignDropPoint hav now inp s = (Inr r, s')"
  shows "\<exists>sel sl k.
           sel = (case find (codeFeasible s (resolvedDate now inp) (in_quantityKg inp)
                               (in_cropType inp) (cratesNeededFor (in_quantityKg inp)))
                         (candidatesFor hav inp s) of
                    Some c \<Rightarrow> c
                  | None \<Rightarrow> candidatesFor hav inp s ! 0)
         \<and> r = resultFor inp (resolvedDate now inp) sel s
         \<and> findFirstSlot (storeAfterScan hav now inp s) (dp_id (point sel))
               (resolvedDate now inp) 7 = Some sl
         \<and> k < length (timeSlots (storeAfterScan hav now inp s))
         \<and> timeSlots (storeAfterScan hav now inp s) ! k = sl
         \<and> slot_id sl \<noteq> 0
         \<and> timeSlots s' =
               (timeSlots (storeAfterScan hav now inp s))
                 [k := sl\<lparr>usedCapacityKg := usedCapacityKg sl + in_quantityKg inp\<rparr>]
         \<and> dropPoints s' = dropPoints s
         \<and> assignments s' = assignments s @ [res_assignment r]"
proof -
  let ?s1 = "storeAfterScan hav now inp s"
  obtain sel sl where
    sel: "sel = (case find (codeFeasible s (resolvedDate now inp) (in_quantityKg inp)
                               (in_cropType inp) (cratesNeededFor (in_quantityKg inp)))
                         (candidatesFor hav inp s) of
                    Some c \<Rightarrow> c
                  | None \<Rightarrow> candidatesFor hav inp s ! 0)"
    and sl: "findFirstSlot ?s1 (dp_id (point sel)) (resolvedDate now inp) 7 = Some sl"
    and r: "r = resultFor inp (resolvedDate now inp) sel s"
    and s': "s' = (if slot_id sl \<noteq> 0
                  then bumpSlot (slot_id sl) (in_quantityKg inp) ?s1
                  else ?s1)
                   \<lparr>assignments :=
                      assignments s @ [newAssignment inp (resolvedDate now inp) sel s],
                    assignmentSeq := assignmentSeq s + 1\<rparr>"
    using assignDropPoint_success(3) [OF ok] by blast
  have wf1: "wf_db ?s1" using wf by (rule storeAfterScan_wf)
  have mem: "sl \<in> set (timeSlots ?s1)"
    using sl by (simp add: findFirstSlot_in_set)
  then obtain k where k: "k < length (timeSlots ?s1)" "timeSlots ?s1 ! k = sl"
    by (auto simp: in_set_conv_nth)
  have nz: "slot_id sl \<noteq> 0"
    using wf1 mem by (auto simp: wf_db_def list_all_iff)
  have dist: "distinct (map slot_id (timeSlots ?s1))"
    using wf1 by (simp add: wf_db_def)
  have upd: "timeSlots (bumpSlot (slot_id sl) (in_quantityKg inp) ?s1) =
               (timeSlots ?s1)[k := sl\<lparr>usedCapacityKg := usedCapacityKg sl + in_quantityKg inp\<rparr>]"
    using bumpSlot_list_update [OF dist k(1), of "in_quantityKg inp"] k(2) by simp
  have dps: "dropPoints ?s1 = dropPoints s"
    by (simp add: storeAfterScan_def scan_frame)
  have "timeSlots s' =
          (timeSlots ?s1)[k := sl\<lparr>usedCapacityKg := usedCapacityKg sl + in_quantityKg inp\<rparr>]"
    using s' nz upd by simp
  moreover have "dropPoints s' = dropPoints s"
    using s' dps by (simp add: bumpSlot_def)
  moreover have "assignments s' = assignments s @ [res_assignment r]"
    using s' r by (simp add: resultFor_def)
  ultimately show ?thesis
    using sel r sl k nz by blast
qed


lemma find_passesBoth:
  assumes "wf_db s"
  shows "find (codeFeasible s d q crop (cratesNeededFor q)) (candidatesFor hav inp s)
           = find (passesBoth s d q crop) (candidatesFor hav inp s)"
  by (rule find_cong [OF refl])
     (simp add: candidatesFor_def codeFeasible_passesBoth [OF assms])


lemma find_map_preserving:
  assumes "\<And>x. P (f x) = P x"
  shows "find P (map f xs) = map_option f (find P xs)"
  by (induction xs) (simp_all add: assms)

lemma findFirstSlot_bumpSlot:
  "findFirstSlot (bumpSlot i q s) j d h =
     map_option (\<lambda>x. if slot_id x = i then x\<lparr>usedCapacityKg := usedCapacityKg x + q\<rparr> else x)
       (findFirstSlot s j d h)"
  unfolding findFirstSlot_def bumpSlot_def
  by (simp add: find_map_preserving)

lemma setHours_fields:
  assumes "0 \<le> h" and "h < 24"
  shows "setHours t h 0 0 0 div msPerDay = t div msPerDay"
    and "getHours (setHours t h 0 0 0) = h"
    and "getMinutes (setHours t h 0 0 0) = 0"
    and "getSeconds (setHours t h 0 0 0) = 0"
    and "getMilliseconds (setHours t h 0 0 0) = 0"
proof -
  have b: "0 \<le> h * 3600000" "h * 3600000 < 86400000"
    using assms by simp_all
  have eq: "setHours t h 0 0 0 = (t div 86400000) * 86400000 + h * 3600000"
    by (simp add: setHours_def makeTime_def msPerDay_def)
  show "setHours t h 0 0 0 div msPerDay = t div msPerDay"
    using b by (simp add: eq msPerDay_def)
  have m: "setHours t h 0 0 0 mod 86400000 = h * 3600000"
    using b by (simp add: eq)
  show "getHours (setHours t h 0 0 0) = h"
    by (simp add: getHours_def msPerDay_def m)
  have "setHours t h 0 0 0 = 3600000 * (24 * (t div 86400000) + h)"
    by (simp add: eq)
  then have m2: "setHours t h 0 0 0 mod 3600000 = 0"
    by simp
  show "getMinutes (setHours t h 0 0 0) = 0"
    by (simp add: getMinutes_def m2)
  have "setHours t h 0 0 0 = 60000 * (1440 * (t div 86400000) + 60 * h)"
    by (simp add: eq)
  then show "getSeconds (setHours t h 0 0 0) = 0"
    by (simp add: getSeconds_def)
  have "setHours t h 0 0 0 = 1000 * (86400 * (t div 86400000) + 3600 * h)"
    by (simp add: eq)
  then show "getMilliseconds (setHours t h 0 0 0) = 0"
    by (simp add: getMilliseconds_def)
qed

subsection \<open>What the loop inserts\<close>

lemma scannedCandidates_subset:
  "set (scannedCandidates P cs) \<subseteq> set cs"
  by (induction cs) auto

lemma scannedCandidates_cong:
  "(\<And>c. c \<in> set cs \<Longrightarrow> P c = Q c) \<Longrightarrow> scannedCandidates P cs = scannedCandidates Q cs"
  by (induction cs) auto

lemma findFirstSlot_other_point:
  assumes "i \<noteq> j"
  shows "findFirstSlot (snd (checkSlotCapacity i d h q s)) j d' h' = findFirstSlot s j d' h'"
proof (cases "findFirstSlot s i d h")
  case None
  with assms show ?thesis
    by (simp add: checkSlotCapacity_created findFirstSlot_def find_append_eq freshSlot_def
          split: option.splits)
next
  case (Some a)
  then show ?thesis by (simp add: checkSlotCapacity_found)
qed

lemma scan_slots_exact:
  assumes "distinct (map (\<lambda>c. dp_id (point c)) cs)"
  shows "timeSlots (snd (scanCandidates d q crop n cs s)) =
           timeSlots s @
           insertedSlots (slotSeq s) d
             (filter (\<lambda>c. findFirstSlot s (dp_id (point c)) d 7 = None)
                (scannedCandidates (codeFeasible s d q crop n) cs))"
  using assms
proof (induction cs arbitrary: s)
  case Nil
  then show ?case by simp
next
  case (Cons c cs)
  let ?i = "dp_id (point c)"
  let ?chk = "checkSlotCapacity ?i d 7 q s"
  let ?s1 = "snd ?chk"
  have dist: "distinct (map (\<lambda>c. dp_id (point c)) cs)"
    and notin: "\<And>c'. c' \<in> set cs \<Longrightarrow> dp_id (point c') \<noteq> ?i"
    using Cons.prems by (auto simp: image_iff)
  have feas1: "codeFeasible ?s1 d q crop n = codeFeasible s d q crop n"
    by (rule codeFeasible_after_check)
  have here: "(hasCapacity (fst ?chk)
                 \<and> hasAvailability (checkCrateAvailability ?s1 ?i crop n))
              = codeFeasible s d q crop n c"
    by (simp add: codeFeasible_def checkSlotCapacity_hasCapacity
          checkCrateAvailability_cong [OF checkSlotCapacity_frame(1)])
  have same: "filter (\<lambda>c'. findFirstSlot ?s1 (dp_id (point c')) d 7 = None)
                (scannedCandidates (codeFeasible s d q crop n) cs)
            = filter (\<lambda>c'. findFirstSlot s (dp_id (point c')) d 7 = None)
                (scannedCandidates (codeFeasible s d q crop n) cs)"
  proof (rule filter_cong [OF refl])
    fix c' assume "c' \<in> set (scannedCandidates (codeFeasible s d q crop n) cs)"
    then have "c' \<in> set cs" using scannedCandidates_subset by blast
    then have "dp_id (point c') \<noteq> ?i" by (rule notin)
    then have "?i \<noteq> dp_id (point c')" by (rule not_sym)
    then show "(findFirstSlot ?s1 (dp_id (point c')) d 7 = None)
             = (findFirstSlot s (dp_id (point c')) d 7 = None)"
      by (simp add: findFirstSlot_other_point)
  qed
  have IH: "timeSlots (snd (scanCandidates d q crop n cs ?s1)) =
           timeSlots ?s1 @
           insertedSlots (slotSeq ?s1) d
             (filter (\<lambda>c. findFirstSlot s (dp_id (point c)) d 7 = None)
                (scannedCandidates (codeFeasible s d q crop n) cs))"
    using Cons.IH [OF dist, of ?s1] by (simp add: feas1 same)
  show ?case
  proof (cases "findFirstSlot s ?i d 7")
    case None
    have s1: "timeSlots ?s1 = timeSlots s @ [freshSlot s ?i d 7]" "slotSeq ?s1 = slotSeq s + 1"
      using None by (simp_all add: checkSlotCapacity_created)
    show ?thesis
      using IH here None
      by (simp add: scan_Cons s1 freshSlot_def del: scanCandidates.simps(2))
  next
    case (Some sl)
    have s1: "?s1 = s"
      using Some by (simp add: checkSlotCapacity_found)
    show ?thesis
      using IH here Some
      by (simp add: scan_Cons s1 del: scanCandidates.simps(2))
  qed
qed

lemma findNearby_distinct:
  assumes "distinct (map dp_id (dropPoints s))"
  shows "distinct (map (\<lambda>c. dp_id (point c)) (findNearby hav f s))"
proof -
  define lim where "lim = (case flt_limit f of None \<Rightarrow> 10 | Some n \<Rightarrow> n)"
  define active where "active =
    filter (\<lambda>dp. (case flt_includeInactive f of None \<Rightarrow> False | Some b \<Rightarrow> b) \<or> isActive dp)
      (dropPoints s)"
  define cands where "cands =
    filter (\<lambda>c. wd_distanceKm c \<le> flt_radiusKm f)
      (map (\<lambda>dp. \<lparr>point = dp,
                    wd_distanceKm = hav (flt_location f)
                      \<lparr>latitude = dp_latitude dp, longitude = dp_longitude dp\<rparr>\<rparr>) active)"
  have "distinct (map dp_id active)"
    using assms by (simp add: active_def distinct_map_filter)
  then have "distinct (map (\<lambda>c. dp_id (point c))
               (map (\<lambda>dp. \<lparr>point = dp,
                    wd_distanceKm = hav (flt_location f)
                      \<lparr>latitude = dp_latitude dp, longitude = dp_longitude dp\<rparr>\<rparr>) active))"
    by (simp add: comp_def)
  then have "distinct (map (\<lambda>c. dp_id (point c)) cands)"
    unfolding cands_def by (rule distinct_map_filter)
  then have "distinct (map (\<lambda>c. dp_id (point c)) (sort_key wd_distanceKm cands))"
    by (simp add: distinct_map)
  then have "distinct (take lim (map (\<lambda>c. dp_id (point c)) (sort_key wd_distanceKm cands)))"
    by (rule distinct_take)
  then have "distinct (map (\<lambda>c. dp_id (point c)) (take lim (sort_key wd_distanceKm cands)))"
    by (simp add: take_map)
  then show ?thesis
    by (simp add: findNearby_def Let_def lim_def cands_def active_def comp_def)
qed

lemma storeAfterScan_slots:
  assumes wf: "wf_db s"
  shows "timeSlots (storeAfterScan hav now inp s) =
           timeSlots s @
           insertedSlots (slotSeq s) (resolvedDate now inp)
             (filter (\<lambda>c. findFirstSlot s (dp_id (point c)) (resolvedDate now inp) 7 = None)
                (scannedCandidates
                   (passesBoth s (resolvedDate now inp) (in_quantityKg inp) (in_cropType inp))
                   (candidatesFor hav inp s)))"
proof -
  have dist: "distinct (map (\<lambda>c. dp_id (point c)) (candidatesFor hav inp s))"
    using wf by (simp add: candidatesFor_def wf_db_def findNearby_distinct)
  have "scannedCandidates
          (codeFeasible s (resolvedDate now inp) (in_quantityKg inp) (in_cropType inp)
             (cratesNeededFor (in_quantityKg inp))) (candidatesFor hav inp s)
      = scannedCandidates
          (passesBoth s (resolvedDate now inp) (in_quantityKg inp) (in_cropType inp))
          (candidatesFor hav inp s)"
    by (rule scannedCandidates_cong)
       (simp add: candidatesFor_def codeFeasible_passesBoth [OF wf])
  then show ?thesis
    unfolding storeAfterScan_def by (simp add: scan_slots_exact [OF dist])
qed

subsection \<open>Reassignment and opening hours\<close>

lemma map_if_key_list_update:
  assumes "distinct (map f xs)" and "k < length xs"
  shows "map (\<lambda>x. if f x = f (xs ! k) then g x else x) xs = xs[k := g (xs ! k)]"
proof (rule nth_equalityI)
  show "length (map (\<lambda>x. if f x = f (xs ! k) then g x else x) xs) = length (xs[k := g (xs ! k)])"
    by simp
next
  fix j
  assume "j < length (map (\<lambda>x. if f x = f (xs ! k) then g x else x) xs)"
  then have j: "j < length xs" by simp
  have "f (xs ! j) = f (xs ! k) \<longleftrightarrow> j = k"
    using nth_eq_iff_index_eq [of "map f xs" j k] assms j by simp
  then show "map (\<lambda>x. if f x = f (xs ! k) then g x else x) xs ! j = xs[k := g (xs ! k)] ! j"
    using j by auto
qed

lemma getAssignmentWithDropPoint_wf:
  assumes "wf_db s"
  shows "getAssignmentWithDropPoint s l =
           (case getAssignmentByListingId s l of
              None \<Rightarrow> None
            | Some a \<Rightarrow> Some (a, the (findById s (dropPointId a))))"
proof (cases "getAssignmentByListingId s l")
  case None
  then show ?thesis by (simp add: getAssignmentWithDropPoint_def)
next
  case (Some a)
  then have "a \<in> set (assignments s)"
    by (auto simp: getAssignmentByListingId_def find_Some_iff)
  then have "findById s (dropPointId a) \<noteq> None"
    using assms by (auto simp: wf_db_def list_all_iff)
  with Some show ?thesis
    by (auto simp: getAssignmentWithDropPoint_def)
qed

lemma updateAssignment_found:
  assumes "getAssignmentByListingId s l = Some a"
  shows "updateAssignment l u s =
           Inr (applyUpdate u a,
                s\<lparr>assignments :=
                     map (\<lambda>x. if listingId x = l then applyUpdate u x else x) (assignments s)\<rparr>)"
  using assms by (simp add: updateAssignment_def)

lemma listingId_applyUpdate: "listingId (applyUpdate u a) = listingId a"
  by (simp add: applyUpdate_def)

lemma getAssignmentByListingId_updated:
  "getAssignmentByListingId
     (s\<lparr>assignments :=
          map (\<lambda>x. if listingId x = l then applyUpdate u x else x) (assignments s)\<rparr>) l'
     = map_option (\<lambda>x. if listingId x = l then applyUpdate u x else x)
         (getAssignmentByListingId s l')"
  unfolding getAssignmentByListingId_def
  by (simp add: find_map_preserving listingId_applyUpdate)

lemma reassign_run:
  assumes wf: "wf_db s"
    and old: "getAssignmentByListingId s l = Some old"
    and dp: "findById s n = Some newPoint"
  shows "reassignDropPoint l n reason s =
     (Inr \<lparr>res_assignment =
             old\<lparr>dropPointId := n, status := REASSIGNED, changeReason := Some reason,
                 previousDropPointId := Some (dropPointId old)\<rparr>,
           res_dropPoint =
             \<lparr>info_id = dp_id newPoint, info_name = dp_name newPoint,
              info_address = dp_address newPoint,
              info_location = \<lparr>latitude = dp_latitude newPoint,
                               longitude = dp_longitude newPoint\<rparr>,
              info_distanceKm = distanceKm old\<rparr>,
           res_pickupWindow =
             \<lparr>window_start = pickupWindowStart old, window_end = pickupWindowEnd old\<rparr>,
           res_cratesNeeded = cratesNeeded old\<rparr>,
      s\<lparr>assignments :=
           map (\<lambda>x. if listingId x = l
                     then x\<lparr>dropPointId := n, status := REASSIGNED,
                            changeReason := Some reason,
                            previousDropPointId := Some (dropPointId old)\<rparr>
                     else x) (assignments s)\<rparr>)"
proof -
  let ?u = "\<lparr>upd_dropPointId = Some n, upd_pickupWindowStart = None,
             upd_pickupWindowEnd = None, upd_status = Some REASSIGNED,
             upd_changeReason = Some reason,
             upd_previousDropPointId = Some (dropPointId old)\<rparr>"
  let ?s' = "s\<lparr>assignments :=
                 map (\<lambda>x. if listingId x = l then applyUpdate ?u x else x) (assignments s)\<rparr>"
  have app: "applyUpdate ?u x =
               x\<lparr>dropPointId := n, status := REASSIGNED, changeReason := Some reason,
                  previousDropPointId := Some (dropPointId old)\<rparr>" for x
    by (simp add: applyUpdate_def)
  have lid: "listingId old = l"
    using old by (auto simp: getAssignmentByListingId_def find_Some_iff)
  have join: "getAssignmentWithDropPoint s l = Some (old, the (findById s (dropPointId old)))"
    using getAssignmentWithDropPoint_wf [OF wf, of l] old by simp
  have upd: "updateAssignment l ?u s = Inr (applyUpdate ?u old, ?s')"
    using old by (rule updateAssignment_found)
  have "getAssignmentByListingId ?s' l = Some (applyUpdate ?u old)"
    using old lid by (simp add: getAssignmentByListingId_updated)
  moreover have "findById ?s' = findById s"
    by (simp add: findById_def fun_eq_iff)
  ultimately have "getAssignmentWithDropPoint ?s' l = Some (applyUpdate ?u old, newPoint)"
    using dp by (simp add: getAssignmentWithDropPoint_def app)
  then have "rereadAssignment l ?s' =
      Inr \<lparr>res_assignment = applyUpdate ?u old,
           res_dropPoint =
             \<lparr>info_id = dp_id newPoint, info_name = dp_name newPoint,
              info_address = dp_address newPoint,
              info_location = \<lparr>latitude = dp_latitude newPoint,
                               longitude = dp_longitude newPoint\<rparr>,
              info_distanceKm = distanceKm old\<rparr>,
           res_pickupWindow =
             \<lparr>window_start = pickupWindowStart old, window_end = pickupWindowEnd old\<rparr>,
           res_cratesNeeded = cratesNeeded old\<rparr>"
    by (simp add: rereadAssignment_def getAssignment_def app)
  then show ?thesis
    using join dp upd by (simp add: reassignDropPoint_def app)
qed

lemma reassign_no_assignment:
  assumes "wf_db s" and "getAssignmentByListingId s l = None"
  shows "reassignDropPoint l n reason s =
           (Inl (DropPointAssignmentError ''No existing assignment found'' ''NOT_FOUND''), s)"
  using assms by (simp add: reassignDropPoint_def getAssignmentWithDropPoint_wf)

lemma reassign_no_point:
  assumes "wf_db s" and "getAssignmentByListingId s l = Some old" and "findById s n = None"
  shows "reassignDropPoint l n reason s =
           (Inl (DropPointAssignmentError ''New drop point not found''
                   ''DROP_POINT_NOT_FOUND''), s)"
  using assms by (simp add: reassignDropPoint_def getAssignmentWithDropPoint_wf)

lemma reassign_success:
  assumes wf: "wf_db s" and ok: "reassignDropPoint l n reason s = (Inr r, s')"
  shows "\<exists>old newPoint.
           getAssignmentByListingId s l = Some old \<and> findById s n = Some newPoint"
proof (cases "getAssignmentByListingId s l")
  case None
  then show ?thesis using reassign_no_assignment [OF wf None, of n reason] ok by simp
next
  case (Some old)
  then show ?thesis
    using reassign_no_point [OF wf Some, of n reason] ok
    by (cases "findById s n") simp_all
qed

lemma isDropPointOpen_closed:
  "isDropPointOpen None day now = False"
  "table day = None \<Longrightarrow> isDropPointOpen (Some table) day now = False"
  "table day = Some \<lparr>hours_open = ''00:00'', hours_close = ''00:00''\<rparr> \<Longrightarrow>
     isDropPointOpen (Some table) day now = False"
  by (simp_all add: isDropPointOpen_def)

lemma isDropPointOpen_interval:
  assumes "table day = Some h"
    and "\<not> (hours_open h = ''00:00'' \<and> hours_close h = ''00:00'')"
    and "minuteOfDay (hours_open h) = Some opens"
    and "minuteOfDay (hours_close h) = Some closes"
  shows "isDropPointOpen (Some table) day now
           = (opens \<le> getHours now * 60 + getMinutes now
              \<and> getHours now * 60 + getMinutes now < closes)"
  using assms by (auto simp: isDropPointOpen_def Let_def)

subsection \<open>Both operations keep the store consistent\<close>

lemma wf_bumpSlot:
  "wf_db s \<Longrightarrow> wf_db (bumpSlot i q s)"
proof -
  have ids: "map slot_id (timeSlots (bumpSlot i q s)) = map slot_id (timeSlots s)"
    by (simp add: bumpSlot_def comp_def if_distrib cong: if_cong)
  have rows: "slot_id ` set (timeSlots (bumpSlot i q s)) = slot_id ` set (timeSlots s)"
    using ids by (metis set_map)
  assume wf: "wf_db s"
  then have "\<forall>v \<in> slot_id ` set (timeSlots s). 0 < v \<and> v \<le> slotSeq s"
    by (auto simp: wf_db_def list_all_iff)
  then have "\<forall>sl \<in> set (timeSlots (bumpSlot i q s)). 0 < slot_id sl \<and> slot_id sl \<le> slotSeq s"
    unfolding rows [symmetric] by blast
  moreover have "slotSeq (bumpSlot i q s) = slotSeq s" "dropPoints (bumpSlot i q s) = dropPoints s"
    "assignments (bumpSlot i q s) = assignments s"
    by (simp_all add: bumpSlot_def)
  ultimately show ?thesis
    using wf ids by (simp add: wf_db_def findById_def list_all_iff)
qed

lemma selected_resolves:
  assumes ne: "candidatesFor hav inp s \<noteq> []"
    and sel: "sel = (case find P (candidatesFor hav inp s) of
                       Some c \<Rightarrow> c | None \<Rightarrow> candidatesFor hav inp s ! 0)"
  shows "point sel \<in> set (dropPoints s)"
proof -
  have "sel \<in> set (candidatesFor hav inp s)"
    using ne sel by (auto simp: find_Some_iff split: option.splits)
  then show ?thesis
    by (simp add: candidatesFor_def findNearby_points)
qed

lemma assignDropPoint_preserves_wf:
  assumes wf: "wf_db s"
  shows "wf_db (snd (assignDropPoint hav now inp s))"
proof (cases "candidatesFor hav inp s = []")
  case True
  then show ?thesis using wf by (simp add: assignDropPoint_empty)
next
  case ne: False
  let ?s1 = "storeAfterScan hav now inp s"
  let ?d = "resolvedDate now inp"
  obtain sel and sl :: timeSlotCapacity where
    sel: "sel = (case find (codeFeasible s ?d (in_quantityKg inp) (in_cropType inp)
                          (cratesNeededFor (in_quantityKg inp))) (candidatesFor hav inp s) of
              Some c \<Rightarrow> c | None \<Rightarrow> candidatesFor hav inp s ! 0)"
    and out: "assignDropPoint hav now inp s =
             (case getAssignmentByListingId s (in_listingId inp) of
                Some _ \<Rightarrow>
                  (Inl (PrismaClientKnownRequestError ''P2002''),
                   if slot_id sl \<noteq> 0
                   then bumpSlot (slot_id sl) (in_quantityKg inp) ?s1
                   else ?s1)
              | None \<Rightarrow>
                  (Inr (resultFor inp ?d sel s),
                   (if slot_id sl \<noteq> 0
                    then bumpSlot (slot_id sl) (in_quantityKg inp) ?s1
                    else ?s1)
                     \<lparr>assignments := assignments s @ [newAssignment inp ?d sel s],
                      assignmentSeq := assignmentSeq s + 1\<rparr>))"
    using assignDropPoint_outcome [OF ne, of now] by blast
  define s3 where "s3 = (if slot_id sl \<noteq> 0
                         then bumpSlot (slot_id sl) (in_quantityKg inp) ?s1 else ?s1)"
  have wf3: "wf_db s3"
    using storeAfterScan_wf [OF wf, of hav now inp] by (simp add: s3_def wf_bumpSlot)
  have frame3: "dropPoints s3 = dropPoints s" "assignments s3 = assignments s"
    by (simp_all add: s3_def bumpSlot_def storeAfterScan_def scan_frame)
  show ?thesis
  proof (cases "getAssignmentByListingId s (in_listingId inp)")
    case (Some a)
    then show ?thesis using out wf3 by (simp add: s3_def)
  next
    case None
    have fresh: "in_listingId inp \<notin> listingId ` set (assignments s)"
      using None by (auto simp: getAssignmentByListingId_def find_None_iff)
    have "point sel \<in> set (dropPoints s)"
      using ne sel by (rule selected_resolves)
    then have res: "findById s (dp_id (point sel)) \<noteq> None"
      by (auto simp: findById_def find_None_iff)
    have "wf_db (s3\<lparr>assignments := assignments s @ [newAssignment inp ?d sel s],
                    assignmentSeq := assignmentSeq s + 1\<rparr>)"
      using wf3 frame3 fresh res
      by (simp add: wf_db_def findById_def newAssignment_def list_all_iff)
    then show ?thesis using out None by (simp add: s3_def)
  qed
qed

lemma reassignDropPoint_preserves_wf:
  assumes wf: "wf_db s"
  shows "wf_db (snd (reassignDropPoint l n reason s))"
proof (cases "getAssignmentByListingId s l")
  case None
  then show ?thesis using wf by (simp add: reassign_no_assignment)
next
  case (Some old)
  show ?thesis
  proof (cases "findById s n")
    case None
    then show ?thesis using wf Some by (simp add: reassign_no_point)
  next
    case dp: (Some newPoint)
    have ids: "map listingId
                 (map (\<lambda>x. if listingId x = l
                     then x\<lparr>dropPointId := n, status := REASSIGNED,
                            changeReason := Some reason,
                            previousDropPointId := Some (dropPointId old)\<rparr>
                     else x) (assignments s)) = map listingId (assignments s)"
      by (induction "assignments s" arbitrary: s) auto
    show ?thesis
      using wf dp reassign_run [OF wf Some dp, of reason]
      by (auto simp: wf_db_def findById_def list_all_iff ids simp del: map_map)
  qed
qed

section \<open>The examples, evaluated\<close>

lemmas example_defs =
  twoPoints_def noPoints_def nearPoint_def farPoint_def request_def offsetDistance_def

lemmas run_defs =
  assignDropPoint_def findNearby_def Math_round_def DEFAULT_SEARCH_RADIUS_KM_def
  CRATES_PER_50KG_def DEFAULT_TIME_SLOT_START_HOUR_def DEFAULT_TIME_SLOT_DURATION_HOURS_def
  checkSlotCapacity_def findFirstSlot_def checkCrateAvailability_def findById_def
  toLowerCase_def reserveIfSlot_def reserveCapacity_def createAssignment_def
  getAssignmentByListingId_def setHours_def makeTime_def msPerDay_def Let_def

lemma ex_candidates:
  "candidatesFor offsetDistance (request q) twoPoints =
     [\<lparr>point = nearPoint, wd_distanceKm = 1\<rparr>, \<lparr>point = farPoint, wd_distanceKm = 2\<rparr>]"
  by (simp add: candidatesFor_def findNearby_def Math_round_def DEFAULT_SEARCH_RADIUS_KM_def
        example_defs Let_def)

lemma ex_wf: "wf_db twoPoints"
  by (simp add: wf_db_def example_defs)

lemma ex_unassigned: "getAssignmentByListingId twoPoints 1 = None"
  by (simp add: getAssignmentByListingId_def example_defs)

lemma ex_passes:
  "\<not> passesBoth twoPoints 0 q ''Tomato'' \<lparr>point = nearPoint, wd_distanceKm = 1\<rparr>"
  "passesBoth twoPoints 0 60 ''Tomato'' \<lparr>point = farPoint, wd_distanceKm = 2\<rparr>"
  "\<not> passesBoth twoPoints 0 300 ''Tomato'' \<lparr>point = farPoint, wd_distanceKm = 2\<rparr>"
  by (simp_all add: passesBoth_def capacityFeasible_def findFirstSlot_def crateCount_def
        cratesNeededFor_def CRATES_PER_50KG_def toLowerCase_def example_defs)

lemma ex_request:
  "resolvedDate now (request q) = 0" "in_quantityKg (request q) = q"
  "in_cropType (request q) = ''Tomato''" "in_listingId (request q) = 1"
  by (simp_all add: resolvedDate_def request_def)

lemma first_feasible_run:
  "\<exists>r s'. assignDropPoint offsetDistance 0 (request 60) twoPoints = (Inr r, s')"
proof -
  have "candidatesFor offsetDistance (request 60) twoPoints \<noteq> []"
    by (simp add: ex_candidates)
  from assignDropPoint_outcome [OF this, of 0] show ?thesis
    by (auto simp: ex_unassigned ex_request)
qed

lemma ex_run_60:
  "map_sum id (\<lambda>r. info_id (res_dropPoint r))
     (fst (assignDropPoint offsetDistance 0 (request 60) twoPoints)) = Inr ''dp-002''"
  by (simp add: run_defs example_defs)

lemma ex_run_300:
  "map_sum id (\<lambda>r. info_id (res_dropPoint r))
     (fst (assignDropPoint offsetDistance 0 (request 300) twoPoints)) = Inr ''dp-001''"
  by (simp add: run_defs example_defs)

lemma ex_after_scan:
  "timeSlots (storeAfterScan offsetDistance 0 (request 60) twoPoints) =
     [freshSlot twoPoints ''dp-001'' 0 7,
      (freshSlot twoPoints ''dp-002'' 0 7)\<lparr>slot_id := 2\<rparr>]"
  by (simp add: storeAfterScan_def candidatesFor_def resolvedDate_def cratesNeededFor_def
        freshSlot_def run_defs example_defs)

lemma ex_assigned_wf: "wf_db assignedStore"
  by (simp add: wf_db_def assignedStore_def sampleAssignment_def findById_def example_defs)

lemma ex_assigned_lookup:
  "getAssignmentByListingId assignedStore 1 = Some sampleAssignment"
  "getAssignmentByListingId assignedStore 2 = None"
  "findById assignedStore ''dp-002'' = Some farPoint"
  "findById assignedStore ''dp-009'' = None"
  by (simp_all add: getAssignmentByListingId_def assignedStore_def sampleAssignment_def
        findById_def example_defs)

lemma minuteOfDay_examples:
  "minuteOfDay ''06:00'' = Some 360" "minuteOfDay ''18:00'' = Some 1080"
  by (simp_all add: minuteOfDay_def Number_of_def isDigit_def)

lemma mondayAt_clock:
  "getDay (mondayAt 12) = 1"
  "getHours (mondayAt 12) * 60 + getMinutes (mondayAt 12) = 720"
  "getHours (mondayAt 19) * 60 + getMinutes (mondayAt 19) = 1140"
  "getHours (mondayAt 5) * 60 + getMinutes (mondayAt 5) = 300"
  by (simp_all add: mondayAt_def getDay_def getHours_def getMinutes_def msPerDay_def)

lemma isDropPointOpen_examples:
  "isDropPointOpen (Some weekdayHours) ''monday'' (mondayAt 12)"
  "\<not> isDropPointOpen (Some weekdayHours) ''monday'' (mondayAt 19)"
  "\<not> isDropPointOpen (Some weekdayHours) ''monday'' (mondayAt 5)"
  "\<not> isDropPointOpen (Some weekdayHours) ''sunday'' now"
proof -
  have monday: "weekdayHours ''monday'' = Some \<lparr>hours_open = ''06:00'', hours_close = ''18:00''\<rparr>"
    by (simp add: weekdayHours_def)
  have open_iff: "isDropPointOpen (Some weekdayHours) ''monday'' t
                    = (360 \<le> getHours t * 60 + getMinutes t
                       \<and> getHours t * 60 + getMinutes t < 1080)" for t
    using isDropPointOpen_interval
            [of weekdayHours "''monday''" "\<lparr>hours_open = ''06:00'', hours_close = ''18:00''\<rparr>"
               360 1080 t]
    by (simp add: monday minuteOfDay_examples)
  show "isDropPointOpen (Some weekdayHours) ''monday'' (mondayAt 12)"
    "\<not> isDropPointOpen (Some weekdayHours) ''monday'' (mondayAt 19)"
    "\<not> isDropPointOpen (Some weekdayHours) ''monday'' (mondayAt 5)"
    by (simp_all add: open_iff mondayAt_clock)
  show "\<not> isDropPointOpen (Some weekdayHours) ''sunday'' now"
    by (simp add: isDropPointOpen_closed(3) weekdayHours_def)
qed

lemma ex_stocked:
  "wf_db stockedStore"
  "candidatesFor offsetDistance (request q) stockedStore =
     [\<lparr>point = stockedPoint, wd_distanceKm = 1\<rparr>, \<lparr>point = farPoint, wd_distanceKm = 2\<rparr>]"
  "passesBoth stockedStore 0 60 ''Tomato'' \<lparr>point = stockedPoint, wd_distanceKm = 1\<rparr>"
  "timeSlots stockedStore = []" "slotSeq stockedStore = 0" "dp_id stockedPoint = ''dp-001''"
  by (simp_all add: wf_db_def stockedStore_def stockedPoint_def candidatesFor_def findNearby_def
        Math_round_def DEFAULT_SEARCH_RADIUS_KM_def passesBoth_def capacityFeasible_def
        findFirstSlot_def crateCount_def cratesNeededFor_def CRATES_PER_50KG_def
        toLowerCase_def findById_def example_defs Let_def)

section \<open>Nearest passing candidate (C1)\<close>




section \<open>Fallback to the nearest candidate (C2)\<close>

text \<open>
  C2. On a consistent store and for a listing not yet assigned, when the candidate list is
  not empty and no candidate passes both checks, \<open>assignDropPoint\<close> succeeds with the
  candidate at index 0: the result and the stored assignment name that point, the
  assignment has status \<open>ASSIGNED\<close> and is the listing's assignment in the new store, and
  the reservation lands in that point's slot for the date and hour 7 as the loop left it
  (resolved again by \<open>checkSlotCapacity\<close> alone, whatever the crate check said).
\<close>

theorem fallback_selects_nearest:
  assumes "wf_db s"
    and "getAssignmentByListingId s (in_listingId inp) = None"
    and "candidatesFor hav inp s \<noteq> []"
    and "\<forall>c \<in> set (candidatesFor hav inp s).
           \<not> passesBoth s (resolvedDate now inp) (in_quantityKg inp) (in_cropType inp) c"
  shows "\<exists>r s' sl.
           assignDropPoint hav now inp s = (Inr r, s')
         \<and> info_id (res_dropPoint r) = dp_id (point (candidatesFor hav inp s ! 0))
         \<and> dropPointId (res_assignment r) = dp_id (point (candidatesFor hav inp s ! 0))
         \<and> status (res_assignment r) = ASSIGNED
         \<and> getAssignmentByListingId s' (in_listingId inp) = Some (res_assignment r)
         \<and> findFirstSlot (storeAfterScan hav now inp s)
               (dp_id (point (candidatesFor hav inp s ! 0))) (resolvedDate now inp) 7 = Some sl
         \<and> findFirstSlot s'
               (dp_id (point (candidatesFor hav inp s ! 0))) (resolvedDate now inp) 7
             = Some (sl\<lparr>usedCapacityKg := usedCapacityKg sl + in_quantityKg inp\<rparr>)"
proof -
  let ?cs = "candidatesFor hav inp s"
  let ?d = "resolvedDate now inp"
  let ?s1 = "storeAfterScan hav now inp s"
  have "find (passesBoth s ?d (in_quantityKg inp) (in_cropType inp)) ?cs = None"
    using assms(4) by (simp add: find_None_iff)
  then have none: "find (codeFeasible s ?d (in_quantityKg inp) (in_cropType inp)
                       (cratesNeededFor (in_quantityKg inp))) ?cs = None"
    by (simp add: find_passesBoth [OF assms(1)])
  obtain sel and sl :: timeSlotCapacity where
    sel: "sel = (case find (codeFeasible s ?d (in_quantityKg inp) (in_cropType inp)
                          (cratesNeededFor (in_quantityKg inp))) ?cs of
              Some c \<Rightarrow> c | None \<Rightarrow> ?cs ! 0)"
    and sl: "findFirstSlot ?s1 (dp_id (point sel)) ?d 7 = Some sl"
    and out: "assignDropPoint hav now inp s =
             (case getAssignmentByListingId s (in_listingId inp) of
                Some _ \<Rightarrow>
                  (Inl (PrismaClientKnownRequestError ''P2002''),
                   if slot_id sl \<noteq> 0
                   then bumpSlot (slot_id sl) (in_quantityKg inp) ?s1
                   else ?s1)
              | None \<Rightarrow>
                  (Inr (resultFor inp ?d sel s),
                   (if slot_id sl \<noteq> 0
                    then bumpSlot (slot_id sl) (in_quantityKg inp) ?s1
                    else ?s1)
                     \<lparr>assignments := assignments s @ [newAssignment inp ?d sel s],
                      assignmentSeq := assignmentSeq s + 1\<rparr>))"
    using assignDropPoint_outcome [OF assms(3), of now] by blast
  have sel0: "sel = ?cs ! 0" using sel none by simp
  have nz: "slot_id sl \<noteq> 0"
    using storeAfterScan_wf [OF assms(1), of hav now inp] findFirstSlot_in_set [OF sl]
    by (auto simp: wf_db_def list_all_iff)
  define s' where "s' = (bumpSlot (slot_id sl) (in_quantityKg inp) ?s1)
                     \<lparr>assignments := assignments s @ [newAssignment inp ?d sel s],
                      assignmentSeq := assignmentSeq s + 1\<rparr>"
  have run: "assignDropPoint hav now inp s = (Inr (resultFor inp ?d sel s), s')"
    using out assms(2) nz by (simp add: s'_def)
  have slot': "findFirstSlot s' (dp_id (point sel)) ?d 7
                 = Some (sl\<lparr>usedCapacityKg := usedCapacityKg sl + in_quantityKg inp\<rparr>)"
  proof -
    have "findFirstSlot s' (dp_id (point sel)) ?d 7
            = findFirstSlot (bumpSlot (slot_id sl) (in_quantityKg inp) ?s1) (dp_id (point sel)) ?d 7"
      by (simp add: s'_def findFirstSlot_def)
    then show ?thesis
      by (simp add: findFirstSlot_bumpSlot sl)
  qed
  have got: "getAssignmentByListingId s' (in_listingId inp) = Some (newAssignment inp ?d sel s)"
    using assms(2)
    by (simp add: s'_def getAssignmentByListingId_def find_append_eq newAssignment_def)
  show ?thesis
    using run sl slot' got
    by (simp add: sel0 [symmetric] resultFor_def newAssignment_def)
qed

theorem fallback_selects_nearest_witness:
  "wf_db twoPoints
   \<and> getAssignmentByListingId twoPoints (in_listingId (request 300)) = None
   \<and> map (\<lambda>c. dp_id (point c)) (candidatesFor offsetDistance (request 300) twoPoints)
        = [''dp-001'', ''dp-002'']
   \<and> \<not> passesBoth twoPoints 0 300 ''Tomato''
         (candidatesFor offsetDistance (request 300) twoPoints ! 0)
   \<and> \<not> passesBoth twoPoints 0 300 ''Tomato''
         (candidatesFor offsetDistance (request 300) twoPoints ! 1)
   \<and> (\<exists>r s'. assignDropPoint offsetDistance 0 (request 300) twoPoints = (Inr r, s')
          \<and> info_id (res_dropPoint r) = ''dp-001''
          \<and> status (res_assignment r) = ASSIGNED)"
proof -
  have h: "wf_db twoPoints"
    "getAssignmentByListingId twoPoints (in_listingId (request 300)) = None"
    "candidatesFor offsetDistance (request 300) twoPoints \<noteq> []"
    "\<forall>c \<in> set (candidatesFor offsetDistance (request 300) twoPoints).
       \<not> passesBoth twoPoints (resolvedDate 0 (request 300)) (in_quantityKg (request 300))
           (in_cropType (request 300)) c"
    by (simp_all add: ex_wf ex_unassigned ex_candidates ex_request ex_passes)
  have ids: "dp_id nearPoint = ''dp-001''" "dp_id farPoint = ''dp-002''"
    by (simp_all add: example_defs)
  from fallback_selects_nearest [OF h] obtain r s' where
    "assignDropPoint offsetDistance 0 (request 300) twoPoints = (Inr r, s')"
    "info_id (res_dropPoint r)
       = dp_id (point (candidatesFor offsetDistance (request 300) twoPoints ! 0))"
    "status (res_assignment r) = ASSIGNED"
    by blast
  then have "\<exists>r s'. assignDropPoint offsetDistance 0 (request 300) twoPoints = (Inr r, s')
          \<and> info_id (res_dropPoint r) = ''dp-001''
          \<and> status (res_assignment r) = ASSIGNED"
    by (simp add: ex_candidates ids)
  then show ?thesis
    using h(1,2) ex_passes(1) [of 300] ex_passes(3)
    by (simp add: ex_candidates ids)
qed

section \<open>Effects on the store (C3)\<close>

text \<open>
  C3 (as amended). The candidate loop changes no drop point and no assignment, and on a
  consistent store its effect on the slot table is exactly this: for every candidate it
  examines (the candidates in order up to and including the first one that passes both
  checks, all of them when none passes) that has no slot for the preferred date and hour
  7, it appends one default slot (1000 kg, none used, hours 7 to 9), in that order and with
  the next ids of the sequence; no row that exists changes and nothing is inserted for any
  other candidate. Beyond these insertions a successful \<open>assignDropPoint\<close> changes
  exactly one slot, adding the quantity to its used capacity, and appends exactly one
  assignment.
\<close>

theorem scan_inserts_exactly_missing_slots:
  "dropPoints (storeAfterScan hav now inp s) = dropPoints s
   \<and> assignments (storeAfterScan hav now inp s) = assignments s
   \<and> (wf_db s \<longrightarrow>
        timeSlots (storeAfterScan hav now inp s) =
          timeSlots s @
          insertedSlots (slotSeq s) (resolvedDate now inp)
            (filter (\<lambda>c. findFirstSlot s (dp_id (point c)) (resolvedDate now inp) 7 = None)
               (scannedCandidates
                  (passesBoth s (resolvedDate now inp) (in_quantityKg inp) (in_cropType inp))
                  (candidatesFor hav inp s))))
   \<and> (wf_db s \<and> assignDropPoint hav now inp s = (Inr r, s') \<longrightarrow>
        dropPoints s' = dropPoints s
        \<and> assignments s' = assignments s @ [res_assignment r]
        \<and> (\<exists>k < length (timeSlots (storeAfterScan hav now inp s)).
              timeSlots s' =
                (timeSlots (storeAfterScan hav now inp s))
                  [k := (timeSlots (storeAfterScan hav now inp s) ! k)
                          \<lparr>usedCapacityKg :=
                             usedCapacityKg (timeSlots (storeAfterScan hav now inp s) ! k)
                               + in_quantityKg inp\<rparr>]))"
proof (intro conjI impI)
  show "dropPoints (storeAfterScan hav now inp s) = dropPoints s"
    "assignments (storeAfterScan hav now inp s) = assignments s"
    by (simp_all add: storeAfterScan_def scan_frame)
next
  assume "wf_db s"
  then show "timeSlots (storeAfterScan hav now inp s) =
          timeSlots s @
          insertedSlots (slotSeq s) (resolvedDate now inp)
            (filter (\<lambda>c. findFirstSlot s (dp_id (point c)) (resolvedDate now inp) 7 = None)
               (scannedCandidates
                  (passesBoth s (resolvedDate now inp) (in_quantityKg inp) (in_cropType inp))
                  (candidatesFor hav inp s)))"
    by (rule storeAfterScan_slots)
next
  assume "wf_db s \<and> assignDropPoint hav now inp s = (Inr r, s')"
  then have wf: "wf_db s" and ok: "assignDropPoint hav now inp s = (Inr r, s')"
    by simp_all
  let ?ts = "timeSlots (storeAfterScan hav now inp s)"
  obtain sl k where
    k: "k < length ?ts" "?ts ! k = sl"
    and upd: "timeSlots s' = ?ts[k := sl\<lparr>usedCapacityKg := usedCapacityKg sl + in_quantityKg inp\<rparr>]"
    and frame: "dropPoints s' = dropPoints s" "assignments s' = assignments s @ [res_assignment r]"
    using assignDropPoint_effects [OF wf ok] by blast
  show "dropPoints s' = dropPoints s" "assignments s' = assignments s @ [res_assignment r]"
    by (rule frame)+
  show "\<exists>k < length ?ts.
          timeSlots s' =
            ?ts[k := (?ts ! k)\<lparr>usedCapacityKg := usedCapacityKg (?ts ! k) + in_quantityKg inp\<rparr>]"
    using k upd by auto
qed

theorem scan_inserts_exactly_missing_slots_witness:
  "wf_db twoPoints
   \<and> timeSlots twoPoints = []
   \<and> map (\<lambda>sl. (slot_id sl, slot_dropPointId sl, maxCapacityKg sl, usedCapacityKg sl))
        (timeSlots (storeAfterScan offsetDistance 0 (request 60) twoPoints))
       = [(1, ''dp-001'', 1000, 0), (2, ''dp-002'', 1000, 0)]
   \<and> wf_db stockedStore
   \<and> map (\<lambda>sl. (slot_id sl, slot_dropPointId sl, maxCapacityKg sl, usedCapacityKg sl))
        (timeSlots (storeAfterScan offsetDistance 0 (request 60) stockedStore))
       = [(1, ''dp-001'', 1000, 0)]
   \<and> (\<exists>r s'. assignDropPoint offsetDistance 0 (request 60) twoPoints = (Inr r, s')
        \<and> dropPoints s' = dropPoints twoPoints
        \<and> assignments s' = [res_assignment r])"
proof -
  have ids: "dp_id nearPoint = ''dp-001''" "dp_id farPoint = ''dp-002''"
    "timeSlots twoPoints = []" "slotSeq twoPoints = 0" "assignments twoPoints = []"
    by (simp_all add: example_defs)
  have a: "map (\<lambda>sl. (slot_id sl, slot_dropPointId sl, maxCapacityKg sl, usedCapacityKg sl))
        (timeSlots (storeAfterScan offsetDistance 0 (request 60) twoPoints))
       = [(1, ''dp-001'', 1000, 0), (2, ''dp-002'', 1000, 0)]"
    using scan_inserts_exactly_missing_slots [of offsetDistance 0 "request 60" twoPoints] ex_wf
    by (simp add: ex_candidates ex_request ex_passes ids findFirstSlot_def)
  have b: "map (\<lambda>sl. (slot_id sl, slot_dropPointId sl, maxCapacityKg sl, usedCapacityKg sl))
        (timeSlots (storeAfterScan offsetDistance 0 (request 60) stockedStore))
       = [(1, ''dp-001'', 1000, 0)]"
    using scan_inserts_exactly_missing_slots [of offsetDistance 0 "request 60" stockedStore]
      ex_stocked(1)
    by (simp add: ex_stocked ex_request ids findFirstSlot_def)
  obtain r s' where ok: "assignDropPoint offsetDistance 0 (request 60) twoPoints = (Inr r, s')"
    using first_feasible_run by blast
  have "dropPoints s' = dropPoints twoPoints \<and> assignments s' = assignments twoPoints @ [res_assignment r]"
    using scan_inserts_exactly_missing_slots [of offsetDistance 0 "request 60" twoPoints r s']
      ex_wf ok by blast
  then have c: "\<exists>r s'. assignDropPoint offsetDistance 0 (request 60) twoPoints = (Inr r, s')
        \<and> dropPoints s' = dropPoints twoPoints
        \<and> assignments s' = [res_assignment r]"
    using ok by (auto simp: ids)
  show ?thesis
    using a b c ex_wf ex_stocked(1) ids(3) by simp
qed

text \<open>
  C3 as stated fails: on a store without slots the loop has inserted two slots when it
  ends, and the slot of the candidate that was passed over stays in the final store.
\<close>

theorem scan_writes_counterexample:
  "timeSlots twoPoints = []
   \<and> map slot_dropPointId (timeSlots (storeAfterScan offsetDistance 0 (request 60) twoPoints))
       = [''dp-001'', ''dp-002'']
   \<and> map (\<lambda>sl. (slot_dropPointId sl, usedCapacityKg sl))
        (timeSlots (snd (assignDropPoint offsetDistance 0 (request 60) twoPoints)))
       = [(''dp-001'', 0), (''dp-002'', 60)]"
proof -
  have "map (\<lambda>sl. (slot_dropPointId sl, usedCapacityKg sl))
        (timeSlots (snd (assignDropPoint offsetDistance 0 (request 60) twoPoints)))
       = [(''dp-001'', 0), (''dp-002'', 60)]"
    by (simp add: run_defs example_defs)
  moreover have "timeSlots twoPoints = []"
    by (simp add: twoPoints_def)
  ultimately show ?thesis
    by (simp add: ex_after_scan freshSlot_def)
qed

section \<open>Crates needed (C4)\<close>

lemma assignDropPoint_crates:
  assumes "fst (assignDropPoint hav now inp s) = Inr r"
  shows "res_cratesNeeded r = cratesNeededFor (in_quantityKg inp)"
    and "cratesNeeded (res_assignment r) = cratesNeededFor (in_quantityKg inp)"
  using assms
  by (auto simp: assignDropPoint_def cratesNeededFor_def createAssignment_def Let_def
           split: if_splits prod.splits sum.splits option.splits)

text \<open>
  C4 (the code departs from it). A request is to need at least one crate. The crates are
  computed as \<open>Math.ceil(quantityKg / 50) * 1\<close> with no lower bound, and the quantity is
  not validated: a request of 0 kg is assigned with 0 crates, in the result and in the
  stored row. At 0 the division and the ceiling are exact in floating point as well.
\<close>

theorem zero_quantity_needs_no_crate:
  "map_sum id (\<lambda>r. (res_cratesNeeded r, cratesNeeded (res_assignment r)))
     (fst (assignDropPoint offsetDistance 0 (request 0) twoPoints)) = Inr (0, 0)"
  by (simp add: run_defs example_defs)

section \<open>Open now (C5)\<close>

lemma getNearbyDropPoints_always_throws:
  "getNearbyDropPoints hav now loc radiusKm s = Inl RangeError"
  by (simp add: getNearbyDropPoints_def toLocaleDateString_weekday_def)

text \<open>
  C5 (the code departs from it). \<open>getNearbyDropPoints\<close> asks
  \<open>toLocaleDateString\<close> for the weekday in the style \<open>lowercase\<close>, which is not one of
  \<open>narrow\<close>, \<open>short\<close>, \<open>long\<close>: the call throws before any flag is computed. On a
  Monday at 12:00, with two active points in range whose table has Monday open 06:00 to
  18:00, the operation returns the \<open>RangeError\<close> and no point, although
  \<open>isDropPointOpen\<close> with the key \<open>monday\<close> says the point is open.
\<close>

theorem getNearbyDropPoints_throws:
  "getNearbyDropPoints offsetDistance (mondayAt 12) \<lparr>latitude = 0, longitude = 0\<rparr> None twoPoints
     = Inl RangeError
   \<and> getDay (mondayAt 12) = 1
   \<and> map (\<lambda>c. dp_id (point c))
        (findNearby offsetDistance
           \<lparr>flt_location = \<lparr>latitude = 0, longitude = 0\<rparr>, flt_radiusKm = 20,
            flt_limit = Some 10, flt_includeInactive = None\<rparr> twoPoints)
       = [''dp-001'', ''dp-002'']
   \<and> operatingHours nearPoint = Some weekdayHours
   \<and> weekdayHours ''monday'' = Some \<lparr>hours_open = ''06:00'', hours_close = ''18:00''\<rparr>
   \<and> isDropPointOpen (operatingHours nearPoint) ''monday'' (mondayAt 12)"
proof -
  have "getNearbyDropPoints offsetDistance (mondayAt 12) \<lparr>latitude = 0, longitude = 0\<rparr> None
          twoPoints = Inl RangeError"
    by (simp add: getNearbyDropPoints_def toLocaleDateString_weekday_def)
  moreover have "map (\<lambda>c. dp_id (point c))
        (findNearby offsetDistance
           \<lparr>flt_location = \<lparr>latitude = 0, longitude = 0\<rparr>, flt_radiusKm = 20,
            flt_limit = Some 10, flt_includeInactive = None\<rparr> twoPoints)
       = [''dp-001'', ''dp-002'']"
    by (simp add: findNearby_def Math_round_def example_defs Let_def)
  moreover have "operatingHours nearPoint = Some weekdayHours"
    by (simp add: nearPoint_def)
  moreover have "weekdayHours ''monday'' = Some \<lparr>hours_open = ''06:00'', hours_close = ''18:00''\<rparr>"
    by (simp add: weekdayHours_def)
  ultimately show ?thesis
    using isDropPointOpen_examples(1) mondayAt_clock(1) by simp
qed

section \<open>No candidate (C6)\<close>

text \<open>
  C6. When the retrieval of the active points within 20 km (at most 20 of them) is empty,
  \<open>assignDropPoint\<close> throws the \<open>DropPointAssignmentError\<close> with code
  \<open>NO_DROP_POINTS\<close> and leaves the store as it was; nothing is tried again.
\<close>

theorem no_candidates_no_assignment:
  assumes "findNearby hav
             \<lparr>flt_location = in_farmerLocation inp, flt_radiusKm = 20, flt_limit = Some 20,
              flt_includeInactive = None\<rparr> s = []"
  shows "assignDropPoint hav now inp s =
           (Inl (DropPointAssignmentError ''No drop points found within search radius''
                   ''NO_DROP_POINTS''), s)"
  using assms assignDropPoint_empty [of hav inp s now]
  by (simp add: candidatesFor_def DEFAULT_SEARCH_RADIUS_KM_def)

theorem no_candidates_no_assignment_witness:
  "findNearby offsetDistance
     \<lparr>flt_location = in_farmerLocation (request 60), flt_radiusKm = 20, flt_limit = Some 20,
      flt_includeInactive = None\<rparr> noPoints = []
   \<and> assignDropPoint offsetDistance 0 (request 60) noPoints =
       (Inl (DropPointAssignmentError ''No drop points found within search radius''
               ''NO_DROP_POINTS''), noPoints)"
proof -
  have h: "findNearby offsetDistance
     \<lparr>flt_location = in_farmerLocation (request 60), flt_radiusKm = 20, flt_limit = Some 20,
      flt_includeInactive = None\<rparr> noPoints = []"
    by (simp add: findNearby_def noPoints_def)
  show ?thesis
    using no_candidates_no_assignment [OF h, of 0] h by simp
qed

section \<open>Outcomes of a reassignment (C7)\<close>

text \<open>
  C7 (as amended). On a consistent store \<open>reassignDropPoint\<close> checks in order: it throws
  \<open>NOT_FOUND\<close> exactly when the listing has no assignment, and
  \<open>DROP_POINT_NOT_FOUND\<close> exactly when the listing has one and the new drop point id does
  not resolve; in both cases the store is unchanged. Otherwise it updates the row and
  returns the re-read, hydrated assignment of the listing, now at the new drop point. It
  never throws \<open>UPDATE_FAILED\<close>: with no other writer between the update and the
  re-read, the re-read finds the row.
\<close>

theorem reassign_three_outcomes:
  assumes "wf_db s"
  shows "(fst (reassignDropPoint l n reason s)
            = Inl (DropPointAssignmentError ''No existing assignment found'' ''NOT_FOUND''))
         = (getAssignmentByListingId s l = None)
       \<and> (fst (reassignDropPoint l n reason s)
            = Inl (DropPointAssignmentError ''New drop point not found''
                     ''DROP_POINT_NOT_FOUND''))
         = (getAssignmentByListingId s l \<noteq> None \<and> findById s n = None)
       \<and> (getAssignmentByListingId s l = None \<or> findById s n = None \<longrightarrow>
            snd (reassignDropPoint l n reason s) = s)
       \<and> (getAssignmentByListingId s l \<noteq> None \<and> findById s n \<noteq> None \<longrightarrow>
            (\<exists>r. fst (reassignDropPoint l n reason s) = Inr r
                 \<and> getAssignment (snd (reassignDropPoint l n reason s)) l = Some r
                 \<and> dropPointId (res_assignment r) = n
                 \<and> info_id (res_dropPoint r) = n))
       \<and> fst (reassignDropPoint l n reason s)
            \<noteq> Inl (DropPointAssignmentError ''Failed to update assignment'' ''UPDATE_FAILED'')"
proof (cases "getAssignmentByListingId s l")
  case None
  show ?thesis
    by (simp add: reassign_no_assignment [OF assms None] None)
next
  case (Some old)
  show ?thesis
  proof (cases "findById s n")
    case None
    show ?thesis
      by (simp add: reassign_no_point [OF assms Some None] Some None)
  next
    case dp: (Some newPoint)
    have id: "dp_id newPoint = n"
      using dp by (auto simp: findById_def find_Some_iff)
    have run: "fst (reassignDropPoint l n reason s)
              = rereadAssignment l (snd (reassignDropPoint l n reason s))"
      using Some dp
      by (simp add: reassignDropPoint_def getAssignmentWithDropPoint_wf [OF assms]
            updateAssignment_found)
    obtain r where r: "fst (reassignDropPoint l n reason s) = Inr r"
      "dropPointId (res_assignment r) = n" "info_id (res_dropPoint r) = n"
      by (simp add: reassign_run [OF assms Some dp] id)
    then have "getAssignment (snd (reassignDropPoint l n reason s)) l = Some r"
      using run by (auto simp: rereadAssignment_def split: option.splits)
    with r show ?thesis
      by (simp add: Some dp)
  qed
qed

theorem reassign_three_outcomes_witness:
  "wf_db assignedStore
   \<and> reassignDropPoint 2 ''dp-002'' ''closer'' assignedStore
       = (Inl (DropPointAssignmentError ''No existing assignment found'' ''NOT_FOUND''),
          assignedStore)
   \<and> reassignDropPoint 1 ''dp-009'' ''closer'' assignedStore
       = (Inl (DropPointAssignmentError ''New drop point not found'' ''DROP_POINT_NOT_FOUND''),
          assignedStore)
   \<and> (\<exists>r. fst (reassignDropPoint 1 ''dp-002'' ''closer'' assignedStore) = Inr r
          \<and> getAssignment (snd (reassignDropPoint 1 ''dp-002'' ''closer'' assignedStore)) 1
              = Some r
          \<and> info_id (res_dropPoint r) = ''dp-002'')"
proof -
  have a: "reassignDropPoint 2 ''dp-002'' ''closer'' assignedStore
       = (Inl (DropPointAssignmentError ''No existing assignment found'' ''NOT_FOUND''),
          assignedStore)"
    using reassign_three_outcomes [OF ex_assigned_wf, of 2 "''dp-002''" "''closer''"]
    by (simp add: ex_assigned_lookup prod_eq_iff)
  have b: "reassignDropPoint 1 ''dp-009'' ''closer'' assignedStore
       = (Inl (DropPointAssignmentError ''New drop point not found'' ''DROP_POINT_NOT_FOUND''),
          assignedStore)"
    using reassign_three_outcomes [OF ex_assigned_wf, of 1 "''dp-009''" "''closer''"]
    by (simp add: ex_assigned_lookup prod_eq_iff)
  have d: "\<exists>r. fst (reassignDropPoint 1 ''dp-002'' ''closer'' assignedStore) = Inr r
          \<and> getAssignment (snd (reassignDropPoint 1 ''dp-002'' ''closer'' assignedStore)) 1
              = Some r
          \<and> info_id (res_dropPoint r) = ''dp-002''"
  proof -
    have e: "getAssignmentByListingId assignedStore 1 \<noteq> None"
      "findById assignedStore ''dp-002'' \<noteq> None"
      by (simp_all add: ex_assigned_lookup)
    from reassign_three_outcomes [OF ex_assigned_wf, of 1 "''dp-002''" "''closer''"] e
    show ?thesis by blast
  qed
  show ?thesis
    using a b d ex_assigned_wf by simp
qed

text \<open>
  C7 as stated fails for an unknown listing with an unknown drop point id: the id does not
  resolve, and the error is \<open>NOT_FOUND\<close>.
\<close>

theorem unknown_listing_unknown_point_counterexample:
  "getAssignmentByListingId assignedStore 2 = None
   \<and> findById assignedStore ''dp-009'' = None
   \<and> reassignDropPoint 2 ''dp-009'' ''closer'' assignedStore
       = (Inl (DropPointAssignmentError ''No existing assignment found'' ''NOT_FOUND''),
          assignedStore)"
  by (simp add: ex_assigned_lookup reassign_no_assignment [OF ex_assigned_wf])

section \<open>What a reassignment changes (C8)\<close>

text \<open>
  C8. On a consistent store a reassignment succeeds whenever the listing has an assignment
  and the new drop point id resolves, with no check of capacity, crates or distance. It
  replaces exactly one row of the assignment table, the listing's, by the same row with
  the drop point id set to the new id, status \<open>REASSIGNED\<close>, the change reason stored and
  the previous drop point id set to the prior one; the recorded distance, the pickup
  window, the crates needed and the farmer's location are as before, and drop points and
  slots are untouched.
\<close>

theorem reassign_changes_four_fields:
  "(wf_db s \<and> getAssignmentByListingId s l \<noteq> None \<and> findById s n \<noteq> None \<longrightarrow>
      (\<exists>r s'. reassignDropPoint l n reason s = (Inr r, s')))
   \<and> (wf_db s \<and> reassignDropPoint l n reason s = (Inr r, s') \<longrightarrow>
      (\<exists>old k.
          getAssignmentByListingId s l = Some old
        \<and> k < length (assignments s) \<and> assignments s ! k = old
        \<and> assignments s' = (assignments s)[k := res_assignment r]
        \<and> res_assignment r =
             old\<lparr>dropPointId := n, status := REASSIGNED, changeReason := Some reason,
                 previousDropPointId := Some (dropPointId old)\<rparr>
        \<and> distanceKm (res_assignment r) = distanceKm old
        \<and> pickupWindowStart (res_assignment r) = pickupWindowStart old
        \<and> pickupWindowEnd (res_assignment r) = pickupWindowEnd old
        \<and> cratesNeeded (res_assignment r) = cratesNeeded old
        \<and> farmerLatitude (res_assignment r) = farmerLatitude old
        \<and> farmerLongitude (res_assignment r) = farmerLongitude old
        \<and> info_distanceKm (res_dropPoint r) = distanceKm old
        \<and> dropPoints s' = dropPoints s
        \<and> timeSlots s' = timeSlots s
        \<and> slotSeq s' = slotSeq s))"
proof (intro conjI impI)
  assume "wf_db s \<and> getAssignmentByListingId s l \<noteq> None \<and> findById s n \<noteq> None"
  then obtain old newPoint where wf: "wf_db s"
    and old: "getAssignmentByListingId s l = Some old"
    and dp: "findById s n = Some newPoint"
    by auto
  show "\<exists>r s'. reassignDropPoint l n reason s = (Inr r, s')"
    by (simp add: reassign_run [OF wf old dp])
next
  assume "wf_db s \<and> reassignDropPoint l n reason s = (Inr r, s')"
  then have wf: "wf_db s" and ok: "reassignDropPoint l n reason s = (Inr r, s')"
    by simp_all
  obtain old newPoint where old: "getAssignmentByListingId s l = Some old"
    and dp: "findById s n = Some newPoint"
    using reassign_success [OF wf ok] by blast
  let ?new = "old\<lparr>dropPointId := n, status := REASSIGNED, changeReason := Some reason,
                 previousDropPointId := Some (dropPointId old)\<rparr>"
  have r: "res_assignment r = ?new" "info_distanceKm (res_dropPoint r) = distanceKm old"
    and s': "s' = s\<lparr>assignments :=
           map (\<lambda>x. if listingId x = l
                     then x\<lparr>dropPointId := n, status := REASSIGNED,
                            changeReason := Some reason,
                            previousDropPointId := Some (dropPointId old)\<rparr>
                     else x) (assignments s)\<rparr>"
    using ok reassign_run [OF wf old dp, of reason] by auto
  have mem: "old \<in> set (assignments s)" and lid: "listingId old = l"
    using old by (auto simp: getAssignmentByListingId_def find_Some_iff)
  then obtain k where k: "k < length (assignments s)" "assignments s ! k = old"
    by (auto simp: in_set_conv_nth)
  have dist: "distinct (map listingId (assignments s))"
    using wf by (simp add: wf_db_def)
  have "assignments s' = (assignments s)[k := ?new]"
    using map_if_key_list_update [OF dist k(1),
        of "\<lambda>x. x\<lparr>dropPointId := n, status := REASSIGNED, changeReason := Some reason,
                     previousDropPointId := Some (dropPointId old)\<rparr>"]
      k(2) lid s'
    by simp
  then show "\<exists>old k.
          getAssignmentByListingId s l = Some old
        \<and> k < length (assignments s) \<and> assignments s ! k = old
        \<and> assignments s' = (assignments s)[k := res_assignment r]
        \<and> res_assignment r =
             old\<lparr>dropPointId := n, status := REASSIGNED, changeReason := Some reason,
                 previousDropPointId := Some (dropPointId old)\<rparr>
        \<and> distanceKm (res_assignment r) = distanceKm old
        \<and> pickupWindowStart (res_assignment r) = pickupWindowStart old
        \<and> pickupWindowEnd (res_assignment r) = pickupWindowEnd old
        \<and> cratesNeeded (res_assignment r) = cratesNeeded old
        \<and> farmerLatitude (res_assignment r) = farmerLatitude old
        \<and> farmerLongitude (res_assignment r) = farmerLongitude old
        \<and> info_distanceKm (res_dropPoint r) = distanceKm old
        \<and> dropPoints s' = dropPoints s
        \<and> timeSlots s' = timeSlots s
        \<and> slotSeq s' = slotSeq s"
    using old k r s' by auto
qed

theorem reassign_changes_four_fields_witness:
  "wf_db assignedStore
   \<and> getAssignmentByListingId assignedStore 1 = Some sampleAssignment
   \<and> (\<exists>r s'. reassignDropPoint 1 ''dp-002'' ''closer'' assignedStore = (Inr r, s')
        \<and> res_assignment r =
             sampleAssignment\<lparr>dropPointId := ''dp-002'', status := REASSIGNED,
                              changeReason := Some ''closer'',
                              previousDropPointId := Some ''dp-001''\<rparr>
        \<and> assignments s' = [res_assignment r]
        \<and> timeSlots s' = [])"
proof -
  have "\<exists>r s'. reassignDropPoint 1 ''dp-002'' ''closer'' assignedStore = (Inr r, s')"
    using reassign_changes_four_fields [of assignedStore 1 "''dp-002''" "''closer''"]
    by (simp add: ex_assigned_wf ex_assigned_lookup)
  then obtain r s' where ok: "reassignDropPoint 1 ''dp-002'' ''closer'' assignedStore = (Inr r, s')"
    by blast
  obtain old k where f:
    "getAssignmentByListingId assignedStore 1 = Some old"
    "k < length (assignments assignedStore)"
    "assignments s' = (assignments assignedStore)[k := res_assignment r]"
    "res_assignment r =
       old\<lparr>dropPointId := ''dp-002'', status := REASSIGNED, changeReason := Some ''closer'',
           previousDropPointId := Some (dropPointId old)\<rparr>"
    "timeSlots s' = timeSlots assignedStore"
    using reassign_changes_four_fields [of assignedStore 1 "''dp-002''" "''closer''" r s']
      ex_assigned_wf ok by blast
  have old: "old = sampleAssignment"
    using f(1) by (simp add: ex_assigned_lookup)
  have tables: "assignments assignedStore = [sampleAssignment]" "timeSlots assignedStore = []"
    "dropPointId sampleAssignment = ''dp-001''"
    by (simp_all add: assignedStore_def twoPoints_def sampleAssignment_def)
  from f(2,3,4,5) have "res_assignment r =
             sampleAssignment\<lparr>dropPointId := ''dp-002'', status := REASSIGNED,
                              changeReason := Some ''closer'',
                              previousDropPointId := Some ''dp-001''\<rparr>
        \<and> assignments s' = [res_assignment r]
        \<and> timeSlots s' = []"
    by (simp add: old tables)
  with ok have "\<exists>r s'. reassignDropPoint 1 ''dp-002'' ''closer'' assignedStore = (Inr r, s')
        \<and> res_assignment r =
             sampleAssignment\<lparr>dropPointId := ''dp-002'', status := REASSIGNED,
                              changeReason := Some ''closer'',
                              previousDropPointId := Some ''dp-001''\<rparr>
        \<and> assignments s' = [res_assignment r]
        \<and> timeSlots s' = []"
    by auto
  then show ?thesis
    by (simp add: ex_assigned_wf ex_assigned_lookup)
qed

section \<open>Pickup window (C9)\<close>

text \<open>
  C9. In every successful assignment the pickup window starts on the day of the preferred
  date at 07:00:00.000 and ends on the same day at 09:00:00.000, two hours later; the
  stored assignment carries the same two instants.
\<close>

theorem pickup_window_seven_to_nine:
  assumes "assignDropPoint hav now inp s = (Inr r, s')"
  shows "window_start (res_pickupWindow r) div msPerDay = resolvedDate now inp div msPerDay
       \<and> getHours (window_start (res_pickupWindow r)) = 7
       \<and> getMinutes (window_start (res_pickupWindow r)) = 0
       \<and> getSeconds (window_start (res_pickupWindow r)) = 0
       \<and> getMilliseconds (window_start (res_pickupWindow r)) = 0
       \<and> window_end (res_pickupWindow r) div msPerDay = resolvedDate now inp div msPerDay
       \<and> getHours (window_end (res_pickupWindow r)) = 9
       \<and> getMinutes (window_end (res_pickupWindow r)) = 0
       \<and> getSeconds (window_end (res_pickupWindow r)) = 0
       \<and> getMilliseconds (window_end (res_pickupWindow r)) = 0
       \<and> window_end (res_pickupWindow r) - window_start (res_pickupWindow r) = 2 * 3600000
       \<and> pickupWindowStart (res_assignment r) = window_start (res_pickupWindow r)
       \<and> pickupWindowEnd (res_assignment r) = window_end (res_pickupWindow r)"
proof -
  obtain sel where r: "r = resultFor inp (resolvedDate now inp) sel s"
    using assignDropPoint_success(3) [OF assms] by blast
  have diff: "setHours t 9 0 0 0 - setHours t 7 0 0 0 = 2 * 3600000" for t
    by (simp add: setHours_def makeTime_def)
  show ?thesis
    unfolding r
    by (simp add: resultFor_def newAssignment_def setHours_fields diff)
qed

theorem pickup_window_seven_to_nine_witness:
  "map_sum id (\<lambda>r. (window_start (res_pickupWindow r), window_end (res_pickupWindow r)))
     (fst (assignDropPoint offsetDistance 0 (request 60) twoPoints))
     = Inr (7 * 3600000, 9 * 3600000)
   \<and> map_sum id (\<lambda>r. getHours (window_start (res_pickupWindow r)))
       (fst (assignDropPoint offsetDistance 0 (request 60) twoPoints)) = Inr 7"
proof -
  obtain r s' where ok: "assignDropPoint offsetDistance 0 (request 60) twoPoints = (Inr r, s')"
    using first_feasible_run by blast
  have w: "map_sum id (\<lambda>r. (window_start (res_pickupWindow r), window_end (res_pickupWindow r)))
     (fst (assignDropPoint offsetDistance 0 (request 60) twoPoints))
     = Inr (7 * 3600000, 9 * 3600000)"
    by (simp add: run_defs example_defs)
  show ?thesis
    using pickup_window_seven_to_nine [OF ok] ok w by simp
qed

section \<open>The slot and its reservation (C10)\<close>

text \<open>
  C10. \<open>checkSlotCapacity\<close> always returns a slot; for a key without a slot it is the
  inserted one, with 1000 kg of capacity and none used. In every successful
  \<open>assignDropPoint\<close> on a consistent store the slot id is not zero, so the guard holds,
  and exactly one row of the slot table as the loop left it changes: the slot of the
  selected point for the preferred date and hour 7, whose used capacity grows by the
  quantity.
\<close>

theorem slot_resolved_and_reserved_once:
  "slot (fst (checkSlotCapacity i d h q s)) \<noteq> None
   \<and> (findFirstSlot s i d h = None \<longrightarrow>
        slot (fst (checkSlotCapacity i d h q s)) = Some (freshSlot s i d h)
        \<and> findFirstSlot (snd (checkSlotCapacity i d h q s)) i d h = Some (freshSlot s i d h)
        \<and> maxCapacityKg (freshSlot s i d h) = 1000
        \<and> usedCapacityKg (freshSlot s i d h) = 0)
   \<and> (wf_db st \<and> assignDropPoint hav now inp st = (Inr r, st') \<longrightarrow>
        (\<exists>k < length (timeSlots (storeAfterScan hav now inp st)).
           slot_id (timeSlots (storeAfterScan hav now inp st) ! k) \<noteq> 0
           \<and> slot_dropPointId (timeSlots (storeAfterScan hav now inp st) ! k)
               = info_id (res_dropPoint r)
           \<and> slotDate (timeSlots (storeAfterScan hav now inp st) ! k) = resolvedDate now inp
           \<and> slotStartHour (timeSlots (storeAfterScan hav now inp st) ! k) = 7
           \<and> timeSlots st' =
               (timeSlots (storeAfterScan hav now inp st))
                 [k := (timeSlots (storeAfterScan hav now inp st) ! k)
                         \<lparr>usedCapacityKg :=
                            usedCapacityKg (timeSlots (storeAfterScan hav now inp st) ! k)
                              + in_quantityKg inp\<rparr>]))"
proof (intro conjI impI)
  show "slot (fst (checkSlotCapacity i d h q s)) \<noteq> None"
    by (rule checkSlotCapacity_resolves)
next
  assume none: "findFirstSlot s i d h = None"
  show "slot (fst (checkSlotCapacity i d h q s)) = Some (freshSlot s i d h)"
    using none by (simp add: checkSlotCapacity_created)
  then show "findFirstSlot (snd (checkSlotCapacity i d h q s)) i d h = Some (freshSlot s i d h)"
    by (simp add: checkSlotCapacity_resolves)
  show "maxCapacityKg (freshSlot s i d h) = 1000" "usedCapacityKg (freshSlot s i d h) = 0"
    by (simp_all add: freshSlot_def)
next
  assume "wf_db st \<and> assignDropPoint hav now inp st = (Inr r, st')"
  then have wf: "wf_db st" and ok: "assignDropPoint hav now inp st = (Inr r, st')"
    by simp_all
  let ?ts = "timeSlots (storeAfterScan hav now inp st)"
  obtain sel sl k where
    r: "r = resultFor inp (resolvedDate now inp) sel st"
    and sl: "findFirstSlot (storeAfterScan hav now inp st) (dp_id (point sel))
               (resolvedDate now inp) 7 = Some sl"
    and k: "k < length ?ts" "?ts ! k = sl" "slot_id sl \<noteq> 0"
    and upd: "timeSlots st' = ?ts[k := sl\<lparr>usedCapacityKg := usedCapacityKg sl + in_quantityKg inp\<rparr>]"
    using assignDropPoint_effects [OF wf ok] by blast
  have key: "slot_dropPointId sl = dp_id (point sel)" "slotDate sl = resolvedDate now inp"
    "slotStartHour sl = 7"
    using findFirstSlot_in_set [OF sl] by simp_all
  have "info_id (res_dropPoint r) = dp_id (point sel)"
    by (simp add: r resultFor_def)
  with k upd key
  show "\<exists>k < length ?ts.
           slot_id (?ts ! k) \<noteq> 0
           \<and> slot_dropPointId (?ts ! k) = info_id (res_dropPoint r)
           \<and> slotDate (?ts ! k) = resolvedDate now inp
           \<and> slotStartHour (?ts ! k) = 7
           \<and> timeSlots st' =
               ?ts[k := (?ts ! k)\<lparr>usedCapacityKg := usedCapacityKg (?ts ! k) + in_quantityKg inp\<rparr>]"
    by auto
qed

theorem slot_resolved_and_reserved_once_witness:
  "findFirstSlot twoPoints ''dp-001'' 0 7 = None
   \<and> slot (fst (checkSlotCapacity ''dp-001'' 0 7 60 twoPoints))
       = Some (freshSlot twoPoints ''dp-001'' 0 7)
   \<and> wf_db twoPoints
   \<and> (\<exists>r st'. assignDropPoint offsetDistance 0 (request 60) twoPoints = (Inr r, st')
        \<and> map (\<lambda>sl. (slot_dropPointId sl, usedCapacityKg sl)) (timeSlots st')
            = [(''dp-001'', 0), (''dp-002'', 60)])"
proof -
  have none: "findFirstSlot twoPoints ''dp-001'' 0 7 = None"
    by (simp add: findFirstSlot_def example_defs)
  obtain r st' where ok: "assignDropPoint offsetDistance 0 (request 60) twoPoints = (Inr r, st')"
    using first_feasible_run by blast
  have a: "slot (fst (checkSlotCapacity ''dp-001'' 0 7 60 twoPoints))
             = Some (freshSlot twoPoints ''dp-001'' 0 7)"
    using slot_resolved_and_reserved_once [of "''dp-001''" 0 7 60 twoPoints] none by simp
  let ?ts = "timeSlots (storeAfterScan offsetDistance 0 (request 60) twoPoints)"
  have id: "info_id (res_dropPoint r) = ''dp-002''"
    using ex_run_60 ok by simp
  obtain k where k: "k < length ?ts" "slot_dropPointId (?ts ! k) = info_id (res_dropPoint r)"
    "timeSlots st' =
       ?ts[k := (?ts ! k)\<lparr>usedCapacityKg :=
                 usedCapacityKg (?ts ! k) + in_quantityKg (request 60)\<rparr>]"
    using slot_resolved_and_reserved_once [of i d h q s twoPoints offsetDistance 0 "request 60" r st']
      ex_wf ok by blast
  have "k = 1"
    using k(1,2) id by (cases k) (auto simp: ex_after_scan freshSlot_def less_Suc_eq)
  then have "map (\<lambda>sl. (slot_dropPointId sl, usedCapacityKg sl)) (timeSlots st')
            = [(''dp-001'', 0), (''dp-002'', 60)]"
    using k(3) by (simp add: ex_after_scan freshSlot_def ex_request)
  with ok have "\<exists>r st'. assignDropPoint offsetDistance 0 (request 60) twoPoints = (Inr r, st')
        \<and> map (\<lambda>sl. (slot_dropPointId sl, usedCapacityKg sl)) (timeSlots st')
            = [(''dp-001'', 0), (''dp-002'', 60)]"
    by auto
  with none a ex_wf show ?thesis by simp
qed

end
